theory Spec2Isabelle
  imports Complex_Main "HOL-Library.Word" "HOL-Library.Char_ord" "HOL-Library.List_Lexorder"
begin

section \<open>Image optimisation: \<open>optimizeImage\<close> (Inventory.jsx, lines 15 and 185-246)\<close>

text \<open>
  A browser \<open>File\<close>: its name, MIME type, modification time and content. \<open>file.size\<close> is
  the number of bytes of the content.
\<close>

record js_file =
  file_name :: string
  file_type :: string
  file_lastModified :: nat
  file_bytes :: "8 word list"

definition file_size :: "js_file \<Rightarrow> nat" where
  "file_size f = length (file_bytes f)"

text \<open>
  What the browser does for the function and the source cannot decide:
  \<^item> \<open>decode\<close>: \<open>FileReader.readAsDataURL\<close> followed by loading an \<open>Image\<close>; the pixel
    dimensions \<open>img.width\<close>, \<open>img.height\<close>, or \<open>None\<close> when no \<open>onload\<close> event ever
    fires (the source installs no \<open>onerror\<close> handler);
  \<^item> \<open>toBlob\<close>: drawing the image on the canvas at the computed width and height and
    encoding it with \<open>canvas.toBlob(cb, 'image/jpeg', 0.75)\<close>; \<open>None\<close> is the \<open>null\<close> blob;
  \<^item> \<open>now\<close>: \<open>Date.now()\<close>.
\<close>

record browser =
  decode :: "js_file \<Rightarrow> (nat \<times> nat) option"
  toBlob :: "js_file \<Rightarrow> real \<Rightarrow> real \<Rightarrow> 8 word list option"
  now :: nat

text \<open>The three ways the promise returned by \<open>optimizeImage\<close> can end.\<close>

datatype 'a promise = Resolved 'a | Rejected string | Pending

definition MAX_FILE_SIZE :: nat where
  "MAX_FILE_SIZE = 100 * 1024"

definition SUPPORTED_FORMATS :: "string list" where
  "SUPPORTED_FORMATS = [''image/jpg'', ''image/jpeg'', ''image/gif'', ''image/png'']"

text \<open>
  Line 210, \<open>Math.sqrt((MAX_FILE_SIZE * 8) / 3) * 0.9\<close>. JavaScript numbers are read as
  real numbers here: the rounding of IEEE doubles is not modelled.
\<close>

definition maxDimension :: real where
  "maxDimension = sqrt ((real MAX_FILE_SIZE * 8) / 3) * 0.9"

text \<open>
  Lines 205-218: the new \<open>(width, height)\<close> from the decoded \<open>img.width\<close>, \<open>img.height\<close>.
  There is no comparison of the decoded dimensions with \<open>maxDimension\<close>.
\<close>

definition new_dimensions :: "nat \<Rightarrow> nat \<Rightarrow> real \<times> real" where
  "new_dimensions img_width img_height =
     (let width = real img_width;
          height = real img_height;
          aspectRatio = width / height
      in if width > height
         then (let width' = maxDimension; height' = width' / aspectRatio in (width', height'))
         else (let height' = maxDimension; width' = height' * aspectRatio in (width', height')))"

definition optimizeImage :: "browser \<Rightarrow> js_file option \<Rightarrow> js_file promise" where
  "optimizeImage env file_opt =
     (case file_opt of
        None \<Rightarrow> Rejected ''No file provided''
      | Some file \<Rightarrow>
          if file_size file > MAX_FILE_SIZE then
            (case decode env file of
               None \<Rightarrow> Pending
             | Some (img_width, img_height) \<Rightarrow>
                 (let (width, height) = new_dimensions img_width img_height in
                  case toBlob env file width height of
                    Some blob \<Rightarrow>
                      Resolved \<lparr>file_name = file_name file, file_type = ''image/jpeg'',
                                file_lastModified = now env, file_bytes = blob\<rparr>
                  | None \<Rightarrow> Rejected ''Failed to optimize image''))
          else Resolved file)"

section \<open>JavaScript values used by the inventory page\<close>

text \<open>
  A JavaScript number: \<open>NaN\<close>, a finite value (read as a real, so \<open>+0\<close> and \<open>-0\<close> are
  one value, which \<open>===\<close> and \<open>||\<close> do not tell apart either) or an infinity.
\<close>

datatype js_number = NaN | Num real | PosInfinity | NegInfinity

text \<open>Truthiness of a number, as \<open>x || 0\<close> tests it: \<open>NaN\<close> and zero are falsy.\<close>

fun truthy_number :: "js_number \<Rightarrow> bool" where
  "truthy_number NaN = False"
| "truthy_number (Num x) = (x \<noteq> 0)"
| "truthy_number PosInfinity = True"
| "truthy_number NegInfinity = True"

text \<open>The relational operator \<open><=\<close> on numbers: every comparison with \<open>NaN\<close> is false.\<close>

fun js_le :: "js_number \<Rightarrow> js_number \<Rightarrow> bool" where
  "js_le NaN _ = False"
| "js_le _ NaN = False"
| "js_le (Num x) (Num y) = (x \<le> y)"
| "js_le NegInfinity _ = True"
| "js_le _ PosInfinity = True"
| "js_le PosInfinity _ = False"
| "js_le _ NegInfinity = False"

text \<open>
  The value of a \<open>category_id\<close> or \<open>warehouse_id\<close> form field: the number copied from a
  resolved object, or the string of a \<open><select>\<close> element (\<open>''\<close> when nothing is chosen).
\<close>

datatype js_id = IdNum int | IdStr string

fun truthy_id :: "js_id \<Rightarrow> bool" where
  "truthy_id (IdNum n) = (n \<noteq> 0)"
| "truthy_id (IdStr s) = (s \<noteq> [])"

subsection \<open>The built-in \<open>parseInt\<close> with no radix argument\<close>

text \<open>
  ECMAScript \<open>parseInt(string)\<close>: leading white space is skipped, an optional sign is
  read, a \<open>0x\<close>/\<open>0X\<close> prefix selects radix 16 (radix 10 otherwise), and the longest prefix
  of digits of that radix is the value; no digit at all gives \<open>NaN\<close>, here \<open>None\<close>.
  Only the ASCII white space characters are modelled.
\<close>

definition is_white_space :: "char \<Rightarrow> bool" where
  "is_white_space c = (c \<in> {CHR '' '', CHR 0x09, CHR 0x0A, CHR 0x0B, CHR 0x0C, CHR 0x0D})"

definition digit_value :: "char \<Rightarrow> nat option" where
  "digit_value c =
     (let n = (of_char c :: nat) in
      if 48 \<le> n \<and> n \<le> 57 then Some (n - 48)
      else if 97 \<le> n \<and> n \<le> 122 then Some (n - 87)
      else if 65 \<le> n \<and> n \<le> 90 then Some (n - 55)
      else None)"

definition is_digit_of :: "nat \<Rightarrow> char \<Rightarrow> bool" where
  "is_digit_of radix c = (case digit_value c of Some d \<Rightarrow> d < radix | None \<Rightarrow> False)"

definition digits_value :: "nat \<Rightarrow> string \<Rightarrow> nat" where
  "digits_value radix ds = foldl (\<lambda>acc c. acc * radix + (case digit_value c of Some d \<Rightarrow> d | None \<Rightarrow> 0)) 0 ds"

definition parseInt_string :: "string \<Rightarrow> int option" where
  "parseInt_string s =
     (let s1 = dropWhile is_white_space s;
          (sign, s2) = (case s1 of
                          c # rest \<Rightarrow> if c = CHR ''-'' then (- 1 :: int, rest)
                                       else if c = CHR ''+'' then (1, rest)
                                       else (1, s1)
                        | [] \<Rightarrow> (1, s1));
          (radix, s3) = (if take 2 s2 = ''0x'' \<or> take 2 s2 = ''0X''
                         then (16 :: nat, drop 2 s2) else (10, s2));
          z = takeWhile (is_digit_of radix) s3
      in if z = [] then None else Some (sign * int (digits_value radix z)))"

text \<open>
  \<open>parseInt\<close> of a form id. A number is first converted to a string. For an integer
  below \<open>10^21\<close> in absolute value that string is its decimal notation, which parses back
  to the same integer. From \<open>10^21\<close> on the string is in exponent notation, one digit
  before the point (\<open>String(1e21)\<close> is \<open>1e+21\<close>), and \<open>parseInt\<close> reads that digit only.
  Integers are exact here, so that digit is the leading decimal digit; the rounding of
  IEEE doubles is not modelled.
\<close>

fun leading_digit :: "nat \<Rightarrow> nat" where
  "leading_digit n = (if n < 10 then n else leading_digit (n div 10))"

declare leading_digit.simps [simp del]

fun parseInt :: "js_id \<Rightarrow> int option" where
  "parseInt (IdNum n) =
     (if \<bar>n\<bar> < 10 ^ 21 then Some n
      else Some (sgn n * int (leading_digit (nat \<bar>n\<bar>))))"
| "parseInt (IdStr s) = parseInt_string s"

section \<open>Stored rows, catalog entries and enriched records\<close>

text \<open>A row of the \<open>category\<close> or of the \<open>warehouse\<close> table.\<close>

record entry =
  entry_id :: int
  entry_name :: string

text \<open>
  A row of the \<open>stock\<close> table, as the remote store returns it. \<open>None\<close> is SQL \<open>null\<close>.
\<close>

record stock_row =
  row_id :: int
  row_name :: string
  row_quantity :: js_number
  row_price :: js_number
  row_threshold :: js_number
  row_category :: "string option"
  row_warehouse :: "string option"
  row_thumbnail :: "string option"

text \<open>
  The object attached to an enriched item: a catalog entry, or the synthetic
  \<open>{ id: null, name }\<close>.
\<close>

record ref =
  ref_id :: "int option"
  ref_name :: string

record enriched_item =
  item_id :: int
  item_name :: string
  item_quantity :: js_number
  item_price :: js_number
  item_threshold :: js_number
  item_thumbnail :: "string option"
  item_category :: "ref option"
  item_warehouse :: "ref option"
  item_category_id :: js_id
  item_warehouse_id :: js_id

text \<open>
  Lines 121-123 and 126-128:
  \<open>name ? (entries.find(c => c.name === name) || { id: null, name: name }) : null\<close>.
  A \<open>null\<close> name and the empty string are both falsy.
\<close>

definition attach :: "entry list \<Rightarrow> string option \<Rightarrow> ref option" where
  "attach entries nm =
     (case nm of
        None \<Rightarrow> None
      | Some n \<Rightarrow>
          if n = [] then None
          else (case find (\<lambda>c. entry_name c = n) entries of
                  Some c \<Rightarrow> Some \<lparr>ref_id = Some (entry_id c), ref_name = entry_name c\<rparr>
                | None \<Rightarrow> Some \<lparr>ref_id = None, ref_name = n\<rparr>))"

text \<open>Lines 135-136: \<open>category?.id || ''\<close>.\<close>

definition id_or_empty :: "ref option \<Rightarrow> js_id" where
  "id_or_empty r =
     (case r of
        None \<Rightarrow> IdStr ''''
      | Some obj \<Rightarrow>
          (case ref_id obj of
             None \<Rightarrow> IdStr ''''
           | Some i \<Rightarrow> if i = 0 then IdStr '''' else IdNum i))"

text \<open>Lines 119-138: the callback of \<open>stockData.map\<close> in \<open>fetchInventory\<close>.\<close>

definition enhance :: "entry list \<Rightarrow> entry list \<Rightarrow> stock_row \<Rightarrow> enriched_item" where
  "enhance categories warehouses item =
     (let category = attach categories (row_category item);
          warehouse = attach warehouses (row_warehouse item)
      in \<lparr>item_id = row_id item, item_name = row_name item,
          item_quantity = row_quantity item, item_price = row_price item,
          item_threshold = row_threshold item, item_thumbnail = row_thumbnail item,
          item_category = category, item_warehouse = warehouse,
          item_category_id = id_or_empty category,
          item_warehouse_id = id_or_empty warehouse\<rparr>)"

section \<open>Forms and the rows written to the store\<close>

text \<open>
  \<open>newItem\<close> and \<open>editingItem\<close>. \<open>newItem\<close> has no \<open>id\<close> property (\<open>None\<close>).
\<close>

record form_item =
  form_id :: "int option"
  form_name :: string
  form_category_id :: js_id
  form_quantity :: js_number
  form_price :: js_number
  form_threshold :: js_number
  form_warehouse_id :: js_id
  form_thumbnail :: "string option"
  form_file :: "js_file option"

text \<open>
  \<open>insertData\<close> and \<open>updateData\<close>. For \<open>st_category\<close> and \<open>st_warehouse\<close>, \<open>None\<close> means
  that the object has no such property: the field is not sent to the store.
\<close>

record storage_row =
  st_name :: string
  st_quantity :: js_number
  st_price :: js_number
  st_threshold :: js_number
  st_thumbnail :: "string option"
  st_category :: "string option"
  st_warehouse :: "string option"

text \<open>Lines 394-407.\<close>

definition openEditModal :: "enriched_item \<Rightarrow> form_item" where
  "openEditModal item =
     \<lparr>form_id = Some (item_id item), form_name = item_name item,
      form_category_id = item_category_id item, form_quantity = item_quantity item,
      form_price = item_price item, form_threshold = item_threshold item,
      form_warehouse_id = item_warehouse_id item, form_thumbnail = item_thumbnail item,
      form_file = None\<rparr>"

text \<open>
  Lines 322-327 and 425-430: the thumbnail URL. \<open>uploadImage\<close> talks to the blob store;
  it is a parameter here, returning the public URL or the message of the error it throws.
\<close>

definition thumbnail_url :: "(js_file \<Rightarrow> string + string) \<Rightarrow> form_item \<Rightarrow> string + string option" where
  "thumbnail_url uploadImage form =
     (case form_file form of
        None \<Rightarrow> Inr (form_thumbnail form)
      | Some file \<Rightarrow> (case uploadImage file of Inl msg \<Rightarrow> Inl msg | Inr url \<Rightarrow> Inr (Some url)))"

text \<open>
  Lines 338-343, 345-350, 442-447 and 449-454:
  \<open>if (id) { const selected = entries.find(c => c.id === parseInt(id));
     if (selected) row.field = selected.name; }\<close>.
  The result is the name to write, or \<open>None\<close> when the field is left out.
\<close>

definition selected_name :: "entry list \<Rightarrow> js_id \<Rightarrow> string option" where
  "selected_name entries ident =
     (if truthy_id ident
      then (case find (\<lambda>c. Some (entry_id c) = parseInt ident) entries of
              Some selected \<Rightarrow> Some (entry_name selected)
            | None \<Rightarrow> None)
      else None)"

text \<open>
  Lines 318-355: \<open>addItem\<close> up to the insert; the result is \<open>insertData\<close>, or the message
  of the error caught when the upload fails.
\<close>

definition addItem ::
  "(js_file \<Rightarrow> string + string) \<Rightarrow> entry list \<Rightarrow> entry list \<Rightarrow> form_item \<Rightarrow> string + storage_row" where
  "addItem uploadImage categories warehouses newItem =
     (case thumbnail_url uploadImage newItem of
        Inl msg \<Rightarrow> Inl msg
      | Inr thumbnailUrl \<Rightarrow>
          Inr \<lparr>st_name = form_name newItem, st_quantity = form_quantity newItem,
               st_price = form_price newItem, st_threshold = form_threshold newItem,
               st_thumbnail = thumbnailUrl,
               st_category = selected_name categories (form_category_id newItem),
               st_warehouse = selected_name warehouses (form_warehouse_id newItem)\<rparr>)"

text \<open>
  Lines 421-461: \<open>saveEditedItem\<close> up to the update; the result is the id the update is
  addressed to (\<open>.eq('id', editingItem.id)\<close>) with \<open>updateData\<close>.
\<close>

definition saveEditedItem ::
  "(js_file \<Rightarrow> string + string) \<Rightarrow> entry list \<Rightarrow> entry list \<Rightarrow> form_item
     \<Rightarrow> string + (int option \<times> storage_row)" where
  "saveEditedItem uploadImage categories warehouses editingItem =
     (case thumbnail_url uploadImage editingItem of
        Inl msg \<Rightarrow> Inl msg
      | Inr thumbnailUrl \<Rightarrow>
          Inr (form_id editingItem,
               \<lparr>st_name = form_name editingItem, st_quantity = form_quantity editingItem,
                st_price = form_price editingItem, st_threshold = form_threshold editingItem,
                st_thumbnail = thumbnailUrl,
                st_category = selected_name categories (form_category_id editingItem),
                st_warehouse = selected_name warehouses (form_warehouse_id editingItem)\<rparr>))"

text \<open>
  Lines 249-277: \<open>handleFileChange\<close>, for the new item form and for the edit form. The
  result is \<open>None\<close> while the promise of \<open>optimizeImage\<close> stays pending; otherwise the
  message passed to \<open>setError\<close>, or the form with the optimised file.
\<close>

definition handleFileChange ::
  "browser \<Rightarrow> js_file option \<Rightarrow> form_item \<Rightarrow> (string + form_item) option" where
  "handleFileChange env file_opt form =
     (case file_opt of
        None \<Rightarrow> Some (Inr form)
      | Some file \<Rightarrow>
          if file_type file \<notin> set SUPPORTED_FORMATS
          then Some (Inl ''Unsupported file format. Please upload a JPG, JPEG, PNG, or GIF.'')
          else (case optimizeImage env (Some file) of
                  Resolved optimizedFile \<Rightarrow> Some (Inr (form\<lparr>form_file := Some optimizedFile\<rparr>))
                | Rejected msg \<Rightarrow> Some (Inl msg)
                | Pending \<Rightarrow> None))"

section \<open>Numeric form fields: \<open>handleInputChange\<close>, \<open>handleEditChange\<close>\<close>

text \<open>
  Lines 383-391 and 410-418. The built-in \<open>parseFloat\<close> is a parameter. The computed key
  \<open>[name]\<close> is one of the names of the form's inputs; any other name would add a property
  that no other code reads, and leaves the modelled fields as they are.
\<close>

definition coerce_number :: "(string \<Rightarrow> js_number) \<Rightarrow> string \<Rightarrow> js_number" where
  \<comment> \<open>\<open>parseFloat(value) || 0\<close>\<close>
  "coerce_number parseFloat v = (if truthy_number (parseFloat v) then parseFloat v else Num 0)"

definition set_property ::
  "(string \<Rightarrow> js_number) \<Rightarrow> string \<Rightarrow> string \<Rightarrow> form_item \<Rightarrow> form_item" where
  "set_property parseFloat name v form =
     (if name = ''quantity'' \<or> name = ''price'' \<or> name = ''threshold'' then
        (let x = coerce_number parseFloat v in
         if name = ''quantity'' then form\<lparr>form_quantity := x\<rparr>
         else if name = ''price'' then form\<lparr>form_price := x\<rparr>
         else form\<lparr>form_threshold := x\<rparr>)
      else if name = ''name'' then form\<lparr>form_name := v\<rparr>
      else if name = ''category_id'' then form\<lparr>form_category_id := IdStr v\<rparr>
      else if name = ''warehouse_id'' then form\<lparr>form_warehouse_id := IdStr v\<rparr>
      else if name = ''thumbnail'' then form\<lparr>form_thumbnail := Some v\<rparr>
      else form)"

definition handleInputChange ::
  "(string \<Rightarrow> js_number) \<Rightarrow> string \<Rightarrow> string \<Rightarrow> form_item \<Rightarrow> form_item" where
  "handleInputChange parseFloat name v newItem = set_property parseFloat name v newItem"

definition handleEditChange ::
  "(string \<Rightarrow> js_number) \<Rightarrow> string \<Rightarrow> string \<Rightarrow> form_item \<Rightarrow> form_item" where
  "handleEditChange parseFloat name v editingItem = set_property parseFloat name v editingItem"

section \<open>The stock status badge (lines 842-850)\<close>

definition status_badge :: "enriched_item \<Rightarrow> string" where
  "status_badge item =
     (if js_le (item_quantity item) (item_threshold item) then ''Low Stock'' else ''In Stock'')"

section \<open>The state of the page, the query and \<open>fetchInventory\<close>\<close>

record page_state =
  items :: "enriched_item list"
  categories :: "entry list"
  warehouses :: "entry list"
  loading :: bool
  currentPage :: int
  itemsPerPage :: int
  totalItems :: int
  searchTerm :: string
  filterCategory :: string
  filterWarehouse :: string
  error :: "string option"

text \<open>
  The request built on lines 88-111: the optional filters, the fixed order by name and
  the inclusive range.
\<close>

record query =
  ilike_name :: "string option"
  eq_category :: "string option"
  eq_warehouse :: "string option"
  range_from :: int
  range_to :: int

definition build_query :: "page_state \<Rightarrow> query" where
  "build_query st =
     (let from = (currentPage st - 1) * itemsPerPage st;
          to = from + itemsPerPage st - 1
      in \<lparr>ilike_name = (if searchTerm st \<noteq> [] then Some (''%'' @ searchTerm st @ ''%'') else None),
          eq_category = (if filterCategory st \<noteq> [] then Some (filterCategory st) else None),
          eq_warehouse = (if filterWarehouse st \<noteq> [] then Some (filterWarehouse st) else None),
          range_from = from, range_to = to\<rparr>)"

text \<open>The answer of the store: \<open>{ data, error, count }\<close>.\<close>

record response =
  resp_data :: "stock_row list option"
  resp_error :: "string option"
  resp_count :: "int option"

text \<open>
  Lines 83-150, with the store as a parameter. The function is created by a render and
  reads that render's constants: \<open>render\<close> is the state of the page at that render, from
  which come the search term, the filters, the page, the page size and the two catalogs.
  Its setters write the state current when the answer arrives, \<open>st\<close>. An error of the
  store is caught: the message is kept and neither the items nor the count change.
\<close>

definition fetchInventory ::
  "(query \<Rightarrow> response) \<Rightarrow> page_state \<Rightarrow> page_state \<Rightarrow> page_state" where
  "fetchInventory store render st =
     (let resp = store (build_query render) in
      case resp_error resp of
        Some msg \<Rightarrow> st\<lparr>error := Some msg, loading := False\<rparr>
      | None \<Rightarrow>
          st\<lparr>totalItems := (case resp_count resp of
                               None \<Rightarrow> 0
                             | Some n \<Rightarrow> n),
              items := (case resp_data resp of
                          Some stockData \<Rightarrow>
                            map (enhance (categories render) (warehouses render)) stockData
                        | None \<Rightarrow> []),
              loading := False\<rparr>)"

text \<open>
  Lines 153-182: \<open>fetchCategories\<close> and \<open>fetchWarehouses\<close>, each with the answer of the
  store, \<open>{ data, error }\<close>, as a parameter.
\<close>

record catalog_response =
  cat_data :: "entry list option"
  cat_error :: "string option"

definition fetchCategories :: "catalog_response \<Rightarrow> page_state \<Rightarrow> page_state" where
  "fetchCategories resp st =
     (case cat_error resp of
        Some msg \<Rightarrow> st\<lparr>error := Some msg\<rparr>
      | None \<Rightarrow> st\<lparr>categories := (case cat_data resp of Some d \<Rightarrow> d | None \<Rightarrow> [])\<rparr>)"

definition fetchWarehouses :: "catalog_response \<Rightarrow> page_state \<Rightarrow> page_state" where
  "fetchWarehouses resp st =
     (case cat_error resp of
        Some msg \<Rightarrow> st\<lparr>error := Some msg\<rparr>
      | None \<Rightarrow> st\<lparr>warehouses := (case cat_data resp of Some d \<Rightarrow> d | None \<Rightarrow> [])\<rparr>)"

text \<open>
  Lines 72-80: \<open>loadData\<close> of the effect run after the render \<open>render\<close>. The three
  functions it awaits are those of that render.
\<close>

definition loadData ::
  "catalog_response \<Rightarrow> catalog_response \<Rightarrow> (query \<Rightarrow> response) \<Rightarrow> page_state
     \<Rightarrow> page_state \<Rightarrow> page_state" where
  "loadData cat_resp wh_resp store render st =
     fetchInventory store render (fetchWarehouses wh_resp (fetchCategories cat_resp st))"

text \<open>Lines 19-33 and 69: the state of the first render.\<close>

definition initial_state :: page_state where
  "initial_state =
     \<lparr>items = [], categories = [], warehouses = [], loading = True, currentPage = 1,
      itemsPerPage = 10, totalItems = 0, searchTerm = [], filterCategory = [],
      filterWarehouse = [], error = None\<rparr>"

text \<open>
  Modelled from the spec: the read of the remote \<open>stock\<close> table, which is a service
  outside the repository. Sections 4.3 and 6 of the specification:
  \<open>select(predicate, order, range) -> (rows, totalCount)\<close>; the predicate is the
  conjunction of the filters that are set; the order is by name ascending; the range is
  the inclusive offset window, and a window beyond the available rows gives an empty
  result, not an error; \<open>totalCount\<close> is the number of rows that pass the filters. The
  pattern match of \<open>ilike\<close> is the parameter \<open>like\<close>.
\<close>

definition passes :: "(string \<Rightarrow> string \<Rightarrow> bool) \<Rightarrow> query \<Rightarrow> stock_row \<Rightarrow> bool" where
  "passes like q row =
     ((case ilike_name q of None \<Rightarrow> True | Some pat \<Rightarrow> like pat (row_name row))
    \<and> (case eq_category q of None \<Rightarrow> True | Some n \<Rightarrow> row_category row = Some n)
    \<and> (case eq_warehouse q of None \<Rightarrow> True | Some n \<Rightarrow> row_warehouse row = Some n))"

definition matching :: "(string \<Rightarrow> string \<Rightarrow> bool) \<Rightarrow> stock_row list \<Rightarrow> query \<Rightarrow> stock_row list" where
  "matching like table q = sort_key row_name (filter (passes like q) table)"

definition remote_select ::
  "(string \<Rightarrow> string \<Rightarrow> bool) \<Rightarrow> stock_row list \<Rightarrow> query \<Rightarrow> response" where
  "remote_select like table q =
     (let rows = matching like table q in
      \<lparr>resp_data = Some (take (nat (range_to q - range_from q + 1)) (drop (nat (range_from q)) rows)),
       resp_error = None,
       resp_count = Some (int (length rows))\<rparr>)"

text \<open>
  Modelled from the spec: the pattern match of the store, outside the repository.
  Section 4.3 of the specification: "substring match on name (case-insensitive)". The
  pattern is the search term between two \<open>%\<close>; wild cards inside the term are not
  modelled, and letters are the ASCII letters.
\<close>

definition lower :: "char \<Rightarrow> char" where
  "lower c =
     (let n = (of_char c :: nat) in if 65 \<le> n \<and> n \<le> 90 then char_of (n + 32) else c)"

fun starts_with :: "string \<Rightarrow> string \<Rightarrow> bool" where
  "starts_with [] s = True"
| "starts_with (p # ps) [] = False"
| "starts_with (p # ps) (c # cs) = (p = c \<and> starts_with ps cs)"

fun contains :: "string \<Rightarrow> string \<Rightarrow> bool" where
  "contains t [] = (t = [])"
| "contains t (c # cs) = (starts_with t (c # cs) \<or> contains t cs)"

definition ilike :: "string \<Rightarrow> string \<Rightarrow> bool" where
  "ilike pat name =
     (case pat of
        [] \<Rightarrow> name = []
      | p # rest \<Rightarrow>
          if p = CHR ''%'' \<and> rest \<noteq> [] \<and> last rest = CHR ''%''
          then contains (map lower (butlast rest)) (map lower name)
          else map lower pat = map lower name)"

text \<open>
  Modelled from the spec: the write of the remote \<open>stock\<close> table, outside the repository.
  Section 6 of the specification: \<open>update(id, partialRow) -> void\<close>. The row with the
  given id takes the fields that the partial row has; a field the partial row does not
  have keeps its stored value.
\<close>

definition apply_update :: "storage_row \<Rightarrow> stock_row \<Rightarrow> stock_row" where
  "apply_update upd row =
     row\<lparr>row_name := st_name upd, row_quantity := st_quantity upd, row_price := st_price upd,
         row_threshold := st_threshold upd, row_thumbnail := st_thumbnail upd,
         row_category := (case st_category upd of Some n \<Rightarrow> Some n | None \<Rightarrow> row_category row),
         row_warehouse := (case st_warehouse upd of Some n \<Rightarrow> Some n | None \<Rightarrow> row_warehouse row)\<rparr>"

definition remote_update :: "int option \<Rightarrow> storage_row \<Rightarrow> stock_row list \<Rightarrow> stock_row list" where
  "remote_update target upd table =
     map (\<lambda>row. if Some (row_id row) = target then apply_update upd row else row) table"

text \<open>Line 551: \<open>Math.ceil(totalItems / itemsPerPage)\<close>.\<close>

definition totalPages :: "page_state \<Rightarrow> int" where
  "totalPages st = \<lceil>real_of_int (totalItems st) / real_of_int (itemsPerPage st)\<rceil>"

section \<open>Page and filter changes\<close>

text \<open>Lines 553-556.\<close>

definition changePage :: "int \<Rightarrow> page_state \<Rightarrow> page_state" where
  "changePage page st =
     (if page < 1 \<or> page > totalPages st then st else st\<lparr>currentPage := page\<rparr>)"

text \<open>Lines 559-562.\<close>

definition handleSearchChange :: "string \<Rightarrow> page_state \<Rightarrow> page_state" where
  "handleSearchChange v st = st\<lparr>searchTerm := v, currentPage := 1\<rparr>"

text \<open>Lines 608-611 and 625-628: the \<open>onChange\<close> handlers of the two filter selects.\<close>

definition onChange_filterCategory :: "string \<Rightarrow> page_state \<Rightarrow> page_state" where
  "onChange_filterCategory v st = st\<lparr>filterCategory := v, currentPage := 1\<rparr>"

definition onChange_filterWarehouse :: "string \<Rightarrow> page_state \<Rightarrow> page_state" where
  "onChange_filterWarehouse v st = st\<lparr>filterWarehouse := v, currentPage := 1\<rparr>"

text \<open>
  The user actions that write \<open>currentPage\<close>; no other code of the page calls
  \<open>setCurrentPage\<close>.
\<close>

datatype action =
  SearchChange string
| CategoryFilterChange string
| WarehouseFilterChange string
| ChangePage int

fun perform :: "action \<Rightarrow> page_state \<Rightarrow> page_state" where
  "perform (SearchChange v) st = handleSearchChange v st"
| "perform (CategoryFilterChange v) st = onChange_filterCategory v st"
| "perform (WarehouseFilterChange v) st = onChange_filterWarehouse v st"
| "perform (ChangePage page) st = changePage page st"

section \<open>Effects and the search timer (lines 71-80 and 564-571)\<close>

text \<open>
  The page has two effects. React runs an effect after a render in which one of its
  dependencies changed, after running the cleanup the effect returned the time before.
  \<^item> The effect of lines 72-80 depends on
    \<open>[currentPage, searchTerm, filterCategory, filterWarehouse]\<close> and calls \<open>loadData\<close>,
    which ends in \<open>fetchInventory\<close>.
  \<^item> The effect of lines 565-571 depends on \<open>[searchTerm, filterCategory, filterWarehouse]\<close>;
    it sets a timeout of 500 ms that calls \<open>fetchInventory\<close>, and its cleanup clears that
    timeout.
  Time is counted in milliseconds. The runtime keeps the state of the page, the clock, the
  time at which the pending timeout is due (if one is pending) and the calls of
  \<open>fetchInventory\<close> triggered so far, each with its time and its origin.
\<close>

datatype origin = LoadData | DelaySearch

record runtime =
  ui :: page_state
  clock :: nat
  delaySearch :: "nat option"
  fetches :: "(nat \<times> origin) list"

definition deps_loadData :: "page_state \<Rightarrow> int \<times> string \<times> string \<times> string" where
  "deps_loadData st = (currentPage st, searchTerm st, filterCategory st, filterWarehouse st)"

definition deps_delaySearch :: "page_state \<Rightarrow> string \<times> string \<times> string" where
  "deps_delaySearch st = (searchTerm st, filterCategory st, filterWarehouse st)"

text \<open>The effects after a render that replaced the state \<open>old\<close> by \<open>ui rt\<close>.\<close>

definition run_effects :: "page_state \<Rightarrow> runtime \<Rightarrow> runtime" where
  "run_effects old rt =
     (let rt1 = (if deps_loadData (ui rt) \<noteq> deps_loadData old
                 then rt\<lparr>fetches := fetches rt @ [(clock rt, LoadData)]\<rparr>
                 else rt);
          rt2 = (if deps_delaySearch (ui rt) \<noteq> deps_delaySearch old
                 then rt1\<lparr>delaySearch := Some (clock rt + 500)\<rparr>
                 else rt1)
      in rt2)"

text \<open>Time passes until \<open>t\<close>: a pending timeout that is due by then fires.\<close>

definition advance :: "nat \<Rightarrow> runtime \<Rightarrow> runtime" where
  "advance t rt =
     (case delaySearch rt of
        Some due \<Rightarrow>
          if due \<le> t
          then rt\<lparr>clock := t, delaySearch := None, fetches := fetches rt @ [(due, DelaySearch)]\<rparr>
          else rt\<lparr>clock := t\<rparr>
      | None \<Rightarrow> rt\<lparr>clock := t\<rparr>)"

text \<open>A keystroke in the search input at time \<open>t\<close>, leaving the input with the text \<open>v\<close>.\<close>

definition keystroke :: "nat \<Rightarrow> string \<Rightarrow> runtime \<Rightarrow> runtime" where
  "keystroke t v rt =
     (let rt' = advance t rt; old = ui rt'
      in run_effects old (rt'\<lparr>ui := handleSearchChange v old\<rparr>))"

fun keystrokes :: "(nat \<times> string) list \<Rightarrow> runtime \<Rightarrow> runtime" where
  "keystrokes [] rt = rt"
| "keystrokes ((t, v) # ks) rt = keystrokes ks (keystroke t v rt)"

section \<open>Properties of the image optimisation\<close>

text \<open>
  C1. A file whose byte size is at most \<open>MAX_FILE_SIZE\<close> (100KB) is returned by
  \<open>optimizeImage\<close> as the very same file object: same name, type, modification time and
  bytes, whatever the browser would have done with it.
\<close>

theorem optimizeImage_identity_under_budget:
  "file_size f \<le> MAX_FILE_SIZE \<Longrightarrow> optimizeImage env (Some f) = Resolved f"
  by (simp add: optimizeImage_def)

theorem optimizeImage_identity_under_budget_witness:
  "file_size \<lparr>file_name = ''a.png'', file_type = ''image/png'', file_lastModified = 7,
              file_bytes = [1, 2, 3]\<rparr> \<le> MAX_FILE_SIZE
   \<and> optimizeImage \<lparr>decode = (\<lambda>_. Some (4000, 3000)), toBlob = (\<lambda>_ _ _. Some [9]), now = 99\<rparr>
        (Some \<lparr>file_name = ''a.png'', file_type = ''image/png'', file_lastModified = 7,
               file_bytes = [1, 2, 3]\<rparr>)
     = Resolved \<lparr>file_name = ''a.png'', file_type = ''image/png'', file_lastModified = 7,
                 file_bytes = [1, 2, 3]\<rparr>"
proof -
  have small: "file_size \<lparr>file_name = ''a.png'', file_type = ''image/png'',
      file_lastModified = 7, file_bytes = [1, 2, 3]\<rparr> \<le> MAX_FILE_SIZE"
    by (simp add: file_size_def MAX_FILE_SIZE_def)
  from small optimizeImage_identity_under_budget [OF small] show ?thesis
    by simp
qed


text \<open>The target dimension lies between 470 and 471 pixels.\<close>

lemma maxDimension_bounds: "470 < maxDimension \<and> maxDimension < 471"
proof -
  have lo: "(4700 / 9 :: real) < sqrt (819200 / 3)"
    by (rule real_less_rsqrt) (simp add: power2_eq_square)
  have hi: "sqrt (819200 / 3) < (4710 / 9 :: real)"
    by (rule real_less_lsqrt) (simp_all add: power2_eq_square)
  from lo hi show ?thesis
    by (simp add: maxDimension_def MAX_FILE_SIZE_def)
qed

text \<open>
  What the resize does for every decoded image with positive dimensions: the larger of
  the two new dimensions is \<open>maxDimension\<close> and the aspect ratio is kept.
\<close>

lemma new_dimensions_keeps_ratio:
  assumes "0 < w" "0 < h"
  shows "max (fst (new_dimensions w h)) (snd (new_dimensions w h)) = maxDimension
       \<and> fst (new_dimensions w h) * real h = snd (new_dimensions w h) * real w"
proof -
  have pos: "0 < maxDimension" using maxDimension_bounds by simp
  show ?thesis
  proof (cases "h < w")
    case True
    have "maxDimension / (real w / real h) = maxDimension * (real h / real w)" by simp
    also have "\<dots> \<le> maxDimension * 1"
      using True assms pos by (intro mult_left_mono) simp_all
    finally have "maxDimension / (real w / real h) \<le> maxDimension" by simp
    with True assms show ?thesis by (simp add: new_dimensions_def Let_def max_def)
  next
    case False
    have "maxDimension * (real w / real h) \<le> maxDimension * 1"
      using False assms pos by (intro mult_left_mono) simp_all
    with False assms show ?thesis by (simp add: new_dimensions_def Let_def max_def)
  qed
qed

text \<open>The over-budget path encodes at the dimensions \<open>new_dimensions\<close> computes.\<close>

lemma optimizeImage_over_budget:
  assumes "MAX_FILE_SIZE < file_size f" and "decode env f = Some (w, h)"
  shows "optimizeImage env (Some f) =
           (case toBlob env f (fst (new_dimensions w h)) (snd (new_dimensions w h)) of
              Some blob \<Rightarrow> Resolved \<lparr>file_name = file_name f, file_type = ''image/jpeg'',
                                      file_lastModified = now env, file_bytes = blob\<rparr>
            | None \<Rightarrow> Rejected ''Failed to optimize image'')"
  using assms by (simp add: optimizeImage_def split: prod.splits)

text \<open>
  C2. The claim: for a file over the byte budget the target dimension is
  \<open>sqrt (maxBytes * 8 / 3) * 0.9\<close>, the larger dimension becomes that target with the
  aspect ratio kept, and an image whose dimensions are already below the target is never
  upscaled. The code has no such guard: a 300 x 200 image in a file of 150000 bytes is
  drawn and encoded at about 470 x 313, larger than it was, although the comment on line
  209 reads "Reduce dimensions until file size is likely below 100KB".
\<close>

theorem optimizeImage_upscales_small_dimensions:
  "new_dimensions 300 200 = (maxDimension, maxDimension / (300 / 200))
   \<and> 300 < fst (new_dimensions 300 200) \<and> 200 < snd (new_dimensions 300 200)
   \<and> optimizeImage \<lparr>decode = (\<lambda>_. Some (300, 200)), toBlob = encode, now = t\<rparr>
        (Some \<lparr>file_name = ''noise.png'', file_type = ''image/png'', file_lastModified = 0,
               file_bytes = replicate 150000 0\<rparr>)
     = (case encode \<lparr>file_name = ''noise.png'', file_type = ''image/png'', file_lastModified = 0,
                      file_bytes = replicate 150000 0\<rparr> maxDimension (maxDimension / (300 / 200)) of
          Some blob \<Rightarrow> Resolved \<lparr>file_name = ''noise.png'', file_type = ''image/jpeg'',
                                  file_lastModified = t, file_bytes = blob\<rparr>
        | None \<Rightarrow> Rejected ''Failed to optimize image'')"
proof -
  have d: "new_dimensions 300 200 = (maxDimension, maxDimension / (300 / 200))"
    by (simp add: new_dimensions_def Let_def)
  have big: "300 < maxDimension" "200 < maxDimension / (300 / 200)"
    using maxDimension_bounds by simp_all
  show ?thesis
    using big
    by (simp add: d optimizeImage_def file_size_def MAX_FILE_SIZE_def split: option.splits)
qed

text \<open>
  A selected file of a supported format within the budget reaches the form as it is.
\<close>

lemma handleFileChange_small_file:
  assumes "file_type f \<in> set SUPPORTED_FORMATS" and "file_size f \<le> MAX_FILE_SIZE"
  shows "handleFileChange env (Some f) form = Some (Inr (form\<lparr>form_file := Some f\<rparr>))"
  using assms by (simp add: handleFileChange_def optimizeImage_def)


section \<open>Properties of enrichment and of the rows written back\<close>

lemma find_None_iff_no_match: "(find P xs = None) = (\<forall>x\<in>set xs. \<not> P x)"
  by (induction xs) auto

lemma attach_orphan:
  assumes "n \<noteq> []" and "\<forall>c\<in>set entries. entry_name c \<noteq> n"
  shows "attach entries (Some n) = Some \<lparr>ref_id = None, ref_name = n\<rparr>"
proof -
  from assms(2) have "find (\<lambda>c. entry_name c = n) entries = None"
    by (simp add: find_None_iff_no_match)
  with assms(1) show ?thesis by (simp add: attach_def)
qed

lemma attach_absent: "nm = None \<or> nm = Some [] \<Longrightarrow> attach entries nm = None"
  by (auto simp: attach_def)

text \<open>
  C3 (amended). Enrichment is a total function of the row and the catalog snapshot. A
  category (or warehouse) name that is non-empty and matches no catalog entry gives the
  synthetic object \<open>{id: null, name}\<close> with the name of the row, and an empty form id. An
  absent name (\<open>null\<close> or the empty string) gives no object at all (\<open>null\<close>), with an empty
  form id.
\<close>

theorem enhance_orphan_and_absent_names:
  "(\<forall>n. row_category r = Some n \<and> n \<noteq> [] \<and> (\<forall>c\<in>set cats. entry_name c \<noteq> n) \<longrightarrow>
        item_category (enhance cats whs r) = Some \<lparr>ref_id = None, ref_name = n\<rparr>
      \<and> item_category_id (enhance cats whs r) = IdStr '''')
 \<and> (\<forall>n. row_warehouse r = Some n \<and> n \<noteq> [] \<and> (\<forall>w\<in>set whs. entry_name w \<noteq> n) \<longrightarrow>
        item_warehouse (enhance cats whs r) = Some \<lparr>ref_id = None, ref_name = n\<rparr>
      \<and> item_warehouse_id (enhance cats whs r) = IdStr '''')
 \<and> (row_category r = None \<or> row_category r = Some [] \<longrightarrow>
        item_category (enhance cats whs r) = None
      \<and> item_category_id (enhance cats whs r) = IdStr '''')
 \<and> (row_warehouse r = None \<or> row_warehouse r = Some [] \<longrightarrow>
        item_warehouse (enhance cats whs r) = None
      \<and> item_warehouse_id (enhance cats whs r) = IdStr '''')"
  by (auto simp: enhance_def Let_def attach_orphan attach_absent id_or_empty_def)

theorem enhance_orphan_and_absent_names_witness:
  "item_category (enhance [\<lparr>entry_id = 3, entry_name = ''Tools''\<rparr>] [\<lparr>entry_id = 4, entry_name = ''Main''\<rparr>]
      \<lparr>row_id = 1, row_name = ''Hammer'', row_quantity = Num 5, row_price = Num 2,
        row_threshold = Num 10, row_category = Some ''Ghost'', row_warehouse = None,
        row_thumbnail = None\<rparr>) = Some \<lparr>ref_id = None, ref_name = ''Ghost''\<rparr>
 \<and> item_warehouse (enhance [\<lparr>entry_id = 3, entry_name = ''Tools''\<rparr>] [\<lparr>entry_id = 4, entry_name = ''Main''\<rparr>]
      \<lparr>row_id = 1, row_name = ''Hammer'', row_quantity = Num 5, row_price = Num 2,
        row_threshold = Num 10, row_category = Some ''Ghost'', row_warehouse = None,
        row_thumbnail = None\<rparr>) = None
 \<and> item_category (enhance [\<lparr>entry_id = 3, entry_name = ''Tools''\<rparr>] [\<lparr>entry_id = 4, entry_name = ''Main''\<rparr>]
      \<lparr>row_id = 2, row_name = ''Saw'', row_quantity = Num 1, row_price = Num 9,
        row_threshold = Num 10, row_category = Some '''', row_warehouse = Some ''Gone'',
        row_thumbnail = None\<rparr>) = None
 \<and> item_warehouse (enhance [\<lparr>entry_id = 3, entry_name = ''Tools''\<rparr>] [\<lparr>entry_id = 4, entry_name = ''Main''\<rparr>]
      \<lparr>row_id = 2, row_name = ''Saw'', row_quantity = Num 1, row_price = Num 9,
        row_threshold = Num 10, row_category = Some '''', row_warehouse = Some ''Gone'',
        row_thumbnail = None\<rparr>) = Some \<lparr>ref_id = None, ref_name = ''Gone''\<rparr>"
  using
    enhance_orphan_and_absent_names [of
      "\<lparr>row_id = 1, row_name = ''Hammer'', row_quantity = Num 5, row_price = Num 2,
        row_threshold = Num 10, row_category = Some ''Ghost'', row_warehouse = None,
        row_thumbnail = None\<rparr>"
      "[\<lparr>entry_id = 3, entry_name = ''Tools''\<rparr>]" "[\<lparr>entry_id = 4, entry_name = ''Main''\<rparr>]"]
    enhance_orphan_and_absent_names [of
      "\<lparr>row_id = 2, row_name = ''Saw'', row_quantity = Num 1, row_price = Num 9,
        row_threshold = Num 10, row_category = Some '''', row_warehouse = Some ''Gone'',
        row_thumbnail = None\<rparr>"
      "[\<lparr>entry_id = 3, entry_name = ''Tools''\<rparr>]" "[\<lparr>entry_id = 4, entry_name = ''Main''\<rparr>]"]
  by simp

text \<open>
  The claim as stated fails for a row whose category is \<open>null\<close>: the enriched record
  carries no category object, not a synthetic one.
\<close>

theorem enhance_null_name_counterexample:
  "item_category (enhance [\<lparr>entry_id = 3, entry_name = ''Tools''\<rparr>] [\<lparr>entry_id = 4, entry_name = ''Main''\<rparr>]
      \<lparr>row_id = 1, row_name = ''Hammer'', row_quantity = Num 5, row_price = Num 2,
        row_threshold = Num 10, row_category = None, row_warehouse = Some ''Main'',
        row_thumbnail = None\<rparr>) = None"
  by (simp add: enhance_def attach_def Let_def)


lemma find_Some_in_set: "find P xs = Some x \<Longrightarrow> x \<in> set xs \<and> P x"
  by (induction xs) (auto split: if_splits)

lemma find_by_distinct_id:
  assumes "distinct (map entry_id entries)" and "c \<in> set entries"
  shows "find (\<lambda>c'. entry_id c' = entry_id c) entries = Some c"
  using assms
proof (induction entries)
  case Nil
  then show ?case by simp
next
  case (Cons e es)
  show ?case
  proof (cases "entry_id e = entry_id c")
    case True
    with Cons.prems have "e = c" by (auto simp: image_iff)
    then show ?thesis by simp
  next
    case False
    with Cons show ?thesis by auto
  qed
qed

text \<open>
  A name found in a catalog with unique ids, at an entry whose id is not zero and is
  below \<open>10^21\<close> in absolute value, comes back from the id that enrichment derives from it.
\<close>

lemma selected_name_of_attach:
  assumes "distinct (map entry_id entries)" and "n \<noteq> []"
    and "find (\<lambda>c. entry_name c = n) entries = Some c"
    and "entry_id c \<noteq> 0" and "\<bar>entry_id c\<bar> < 10 ^ 21"
  shows "selected_name entries (id_or_empty (attach entries (Some n))) = Some n"
proof -
  from assms(3) have c: "c \<in> set entries" "entry_name c = n"
    using find_Some_in_set [of "\<lambda>c. entry_name c = n" entries c] by simp_all
  from assms(2,3,4) have "id_or_empty (attach entries (Some n)) = IdNum (entry_id c)"
    by (simp add: attach_def id_or_empty_def)
  moreover have "find (\<lambda>c'. Some (entry_id c') = Some (entry_id c)) entries = Some c"
    using find_by_distinct_id [OF assms(1) c(1)] by simp
  ultimately show ?thesis
    using assms(4,5) c(2) by (simp add: selected_name_def)
qed

text \<open>
  Where the round trip does work: when the \<open>fetchInventory\<close> that enriched the row was
  created by a render that held the very catalogs \<open>saveEditedItem\<close> later reads, and the
  names are found there at entries with ids as above.
\<close>

lemma roundtrip_same_snapshot:
  assumes "distinct (map entry_id cats)" and "distinct (map entry_id whs)"
    and "row_category r = Some cn" and "cn \<noteq> []"
    and "find (\<lambda>c. entry_name c = cn) cats = Some c"
    and "entry_id c \<noteq> 0" and "\<bar>entry_id c\<bar> < 10 ^ 21"
    and "row_warehouse r = Some wn" and "wn \<noteq> []"
    and "find (\<lambda>w. entry_name w = wn) whs = Some w"
    and "entry_id w \<noteq> 0" and "\<bar>entry_id w\<bar> < 10 ^ 21"
  shows "saveEditedItem uploadImage cats whs (openEditModal (enhance cats whs r)) =
           Inr (Some (row_id r),
                \<lparr>st_name = row_name r, st_quantity = row_quantity r, st_price = row_price r,
                 st_threshold = row_threshold r, st_thumbnail = row_thumbnail r,
                 st_category = row_category r, st_warehouse = row_warehouse r\<rparr>)"
proof -
  have cat: "selected_name cats (id_or_empty (attach cats (Some cn))) = Some cn"
    using assms(1,4,5,6,7) by (rule selected_name_of_attach)
  have wh: "selected_name whs (id_or_empty (attach whs (Some wn))) = Some wn"
    using assms(2,9,10,11,12) by (rule selected_name_of_attach)
  show ?thesis
    using cat wh assms(3,8)
    by (simp add: saveEditedItem_def openEditModal_def enhance_def thumbnail_url_def Let_def)
qed

text \<open>
  C4. The claim: a stored row whose category and warehouse names are found in the
  catalog comes back unchanged, names included, from enrichment followed by the
  construction of the row that \<open>saveEditedItem\<close> writes. The code breaks it in two ways.
  \<^item> On mount, \<open>loadData\<close> runs the \<open>fetchInventory\<close> of the first render, whose catalogs
    are empty: the store holds the category \<open>Tools\<close> (id 3) and the warehouse \<open>Main\<close> (id 4),
    both are in the state afterwards, and yet the item is enriched with \<open>id: null\<close> and
    empty form ids, so saving the form opened from it writes neither name.
  \<^item> With the catalogs in place, a category found at id \<open>0\<close> gets the empty form id from
    \<open>category?.id || ''\<close> and its name is not written, while \<open>addItem\<close> given the string
    \<open>'0'\<close> of the select writes it.
\<close>

theorem roundtrip_drops_names:
  "categories (loadData
      \<lparr>cat_data = Some [\<lparr>entry_id = 3, entry_name = ''Tools''\<rparr>], cat_error = None\<rparr>
      \<lparr>cat_data = Some [\<lparr>entry_id = 4, entry_name = ''Main''\<rparr>], cat_error = None\<rparr>
      (\<lambda>q. \<lparr>resp_data = Some [\<lparr>row_id = 1, row_name = ''Hammer'', row_quantity = Num 5,
                row_price = Num 2, row_threshold = Num 10, row_category = Some ''Tools'',
                row_warehouse = Some ''Main'', row_thumbnail = None\<rparr>],
              resp_error = None, resp_count = Some 1\<rparr>)
      initial_state initial_state) = [\<lparr>entry_id = 3, entry_name = ''Tools''\<rparr>]
 \<and> warehouses (loadData
      \<lparr>cat_data = Some [\<lparr>entry_id = 3, entry_name = ''Tools''\<rparr>], cat_error = None\<rparr>
      \<lparr>cat_data = Some [\<lparr>entry_id = 4, entry_name = ''Main''\<rparr>], cat_error = None\<rparr>
      (\<lambda>q. \<lparr>resp_data = Some [\<lparr>row_id = 1, row_name = ''Hammer'', row_quantity = Num 5,
                row_price = Num 2, row_threshold = Num 10, row_category = Some ''Tools'',
                row_warehouse = Some ''Main'', row_thumbnail = None\<rparr>],
              resp_error = None, resp_count = Some 1\<rparr>)
      initial_state initial_state) = [\<lparr>entry_id = 4, entry_name = ''Main''\<rparr>]
 \<and> items (loadData
      \<lparr>cat_data = Some [\<lparr>entry_id = 3, entry_name = ''Tools''\<rparr>], cat_error = None\<rparr>
      \<lparr>cat_data = Some [\<lparr>entry_id = 4, entry_name = ''Main''\<rparr>], cat_error = None\<rparr>
      (\<lambda>q. \<lparr>resp_data = Some [\<lparr>row_id = 1, row_name = ''Hammer'', row_quantity = Num 5,
                row_price = Num 2, row_threshold = Num 10, row_category = Some ''Tools'',
                row_warehouse = Some ''Main'', row_thumbnail = None\<rparr>],
              resp_error = None, resp_count = Some 1\<rparr>)
      initial_state initial_state)
   = [\<lparr>item_id = 1, item_name = ''Hammer'', item_quantity = Num 5, item_price = Num 2,
       item_threshold = Num 10, item_thumbnail = None,
       item_category = Some \<lparr>ref_id = None, ref_name = ''Tools''\<rparr>,
       item_warehouse = Some \<lparr>ref_id = None, ref_name = ''Main''\<rparr>,
       item_category_id = IdStr '''', item_warehouse_id = IdStr ''''\<rparr>]
 \<and> saveEditedItem uploadImage
      [\<lparr>entry_id = 3, entry_name = ''Tools''\<rparr>] [\<lparr>entry_id = 4, entry_name = ''Main''\<rparr>]
      (openEditModal
        \<lparr>item_id = 1, item_name = ''Hammer'', item_quantity = Num 5, item_price = Num 2,
         item_threshold = Num 10, item_thumbnail = None,
         item_category = Some \<lparr>ref_id = None, ref_name = ''Tools''\<rparr>,
         item_warehouse = Some \<lparr>ref_id = None, ref_name = ''Main''\<rparr>,
         item_category_id = IdStr '''', item_warehouse_id = IdStr ''''\<rparr>)
   = Inr (Some 1,
          \<lparr>st_name = ''Hammer'', st_quantity = Num 5, st_price = Num 2, st_threshold = Num 10,
           st_thumbnail = None, st_category = None, st_warehouse = None\<rparr>)
 \<and> saveEditedItem uploadImage
      [\<lparr>entry_id = 0, entry_name = ''Tools''\<rparr>] [\<lparr>entry_id = 4, entry_name = ''Main''\<rparr>]
      (openEditModal (enhance [\<lparr>entry_id = 0, entry_name = ''Tools''\<rparr>]
         [\<lparr>entry_id = 4, entry_name = ''Main''\<rparr>]
         \<lparr>row_id = 1, row_name = ''Hammer'', row_quantity = Num 5, row_price = Num 2,
           row_threshold = Num 10, row_category = Some ''Tools'', row_warehouse = Some ''Main'',
           row_thumbnail = None\<rparr>))
   = Inr (Some 1,
          \<lparr>st_name = ''Hammer'', st_quantity = Num 5, st_price = Num 2, st_threshold = Num 10,
           st_thumbnail = None, st_category = None, st_warehouse = Some ''Main''\<rparr>)
 \<and> addItem uploadImage
      [\<lparr>entry_id = 0, entry_name = ''Tools''\<rparr>] [\<lparr>entry_id = 4, entry_name = ''Main''\<rparr>]
      \<lparr>form_id = None, form_name = ''Hammer'', form_category_id = IdStr ''0'',
        form_quantity = Num 5, form_price = Num 2, form_threshold = Num 10,
        form_warehouse_id = IdStr ''4'', form_thumbnail = None, form_file = None\<rparr>
   = Inr \<lparr>st_name = ''Hammer'', st_quantity = Num 5, st_price = Num 2, st_threshold = Num 10,
          st_thumbnail = None, st_category = Some ''Tools'', st_warehouse = Some ''Main''\<rparr>"
proof -
  have p: "parseInt_string ''0'' = Some 0" "parseInt_string ''4'' = Some 4"
    by (simp_all add: parseInt_string_def is_white_space_def is_digit_of_def digit_value_def
        digits_value_def)
  show ?thesis
    by (simp add: loadData_def fetchInventory_def fetchCategories_def fetchWarehouses_def
        initial_state_def build_query_def saveEditedItem_def addItem_def openEditModal_def
        enhance_def thumbnail_url_def Let_def attach_def id_or_empty_def selected_name_def p)
qed

lemma selected_name_unresolved:
  assumes "\<forall>c\<in>set entries. Some (entry_id c) \<noteq> parseInt ident"
  shows "selected_name entries ident = None"
proof -
  from assms have "find (\<lambda>c. Some (entry_id c) = parseInt ident) entries = None"
    by (simp add: find_None_iff_no_match)
  then show ?thesis by (simp add: selected_name_def)
qed

lemma selected_name_resolved:
  assumes "truthy_id ident"
    and "find (\<lambda>c. Some (entry_id c) = parseInt ident) entries = Some c"
  shows "selected_name entries ident = Some (entry_name c)"
  using assms by (simp add: selected_name_def)

text \<open>
  C5 (amended). In the row written by \<open>saveEditedItem\<close> and in the row written by
  \<open>addItem\<close>: when the form's \<open>category_id\<close> (or \<open>warehouse_id\<close>) is set and no catalog
  entry has that id, the row has no category (warehouse) field at all; when an entry has
  that id, the row carries the name of the first such entry. An update without the field
  leaves the stored category (warehouse) of every row of the store as it was; an update
  with the field stores the written name.
\<close>

theorem unresolved_id_omits_field:
  assumes "saveEditedItem uploadImage cats whs e = Inr (i, upd)"
    and "addItem uploadImage cats whs n = Inr ins"
  shows
   "(truthy_id (form_category_id e)
       \<and> (\<forall>c\<in>set cats. Some (entry_id c) \<noteq> parseInt (form_category_id e))
     \<longrightarrow> st_category upd = None
       \<and> map row_category (remote_update i upd table) = map row_category table)
  \<and> (\<forall>c. truthy_id (form_category_id e)
       \<and> find (\<lambda>c. Some (entry_id c) = parseInt (form_category_id e)) cats = Some c
     \<longrightarrow> st_category upd = Some (entry_name c)
       \<and> (\<forall>row. row_category (apply_update upd row) = Some (entry_name c)))
  \<and> (truthy_id (form_warehouse_id e)
       \<and> (\<forall>w\<in>set whs. Some (entry_id w) \<noteq> parseInt (form_warehouse_id e))
     \<longrightarrow> st_warehouse upd = None
       \<and> map row_warehouse (remote_update i upd table) = map row_warehouse table)
  \<and> (\<forall>w. truthy_id (form_warehouse_id e)
       \<and> find (\<lambda>w. Some (entry_id w) = parseInt (form_warehouse_id e)) whs = Some w
     \<longrightarrow> st_warehouse upd = Some (entry_name w)
       \<and> (\<forall>row. row_warehouse (apply_update upd row) = Some (entry_name w)))
  \<and> (truthy_id (form_category_id n)
       \<and> (\<forall>c\<in>set cats. Some (entry_id c) \<noteq> parseInt (form_category_id n))
     \<longrightarrow> st_category ins = None)
  \<and> (\<forall>c. truthy_id (form_category_id n)
       \<and> find (\<lambda>c. Some (entry_id c) = parseInt (form_category_id n)) cats = Some c
     \<longrightarrow> st_category ins = Some (entry_name c))
  \<and> (truthy_id (form_warehouse_id n)
       \<and> (\<forall>w\<in>set whs. Some (entry_id w) \<noteq> parseInt (form_warehouse_id n))
     \<longrightarrow> st_warehouse ins = None)
  \<and> (\<forall>w. truthy_id (form_warehouse_id n)
       \<and> find (\<lambda>w. Some (entry_id w) = parseInt (form_warehouse_id n)) whs = Some w
     \<longrightarrow> st_warehouse ins = Some (entry_name w))"
proof -
  from assms(1) have upd:
    "st_category upd = selected_name cats (form_category_id e)"
    "st_warehouse upd = selected_name whs (form_warehouse_id e)"
    by (auto simp: saveEditedItem_def split: sum.splits)
  from assms(2) have ins:
    "st_category ins = selected_name cats (form_category_id n)"
    "st_warehouse ins = selected_name whs (form_warehouse_id n)"
    by (auto simp: addItem_def split: sum.splits)
  have keep_c: "st_category upd = None \<Longrightarrow>
      map row_category (remote_update i upd table) = map row_category table"
    and keep_w: "st_warehouse upd = None \<Longrightarrow>
      map row_warehouse (remote_update i upd table) = map row_warehouse table"
    by (simp_all add: remote_update_def apply_update_def)
  have put_c: "\<And>x. st_category upd = Some x \<Longrightarrow> \<forall>row. row_category (apply_update upd row) = Some x"
    and put_w: "\<And>x. st_warehouse upd = Some x \<Longrightarrow> \<forall>row. row_warehouse (apply_update upd row) = Some x"
    by (simp_all add: apply_update_def)
  have c1: "truthy_id (form_category_id e)
       \<and> (\<forall>c\<in>set cats. Some (entry_id c) \<noteq> parseInt (form_category_id e))
     \<longrightarrow> st_category upd = None
       \<and> map row_category (remote_update i upd table) = map row_category table"
    using keep_c by (simp add: upd selected_name_unresolved)
  have c2: "\<forall>c. truthy_id (form_category_id e)
       \<and> find (\<lambda>c. Some (entry_id c) = parseInt (form_category_id e)) cats = Some c
     \<longrightarrow> st_category upd = Some (entry_name c)
       \<and> (\<forall>row. row_category (apply_update upd row) = Some (entry_name c))"
    using put_c by (auto simp: upd selected_name_resolved)
  have w1: "truthy_id (form_warehouse_id e)
       \<and> (\<forall>w\<in>set whs. Some (entry_id w) \<noteq> parseInt (form_warehouse_id e))
     \<longrightarrow> st_warehouse upd = None
       \<and> map row_warehouse (remote_update i upd table) = map row_warehouse table"
    using keep_w by (simp add: upd selected_name_unresolved)
  have w2: "\<forall>w. truthy_id (form_warehouse_id e)
       \<and> find (\<lambda>w. Some (entry_id w) = parseInt (form_warehouse_id e)) whs = Some w
     \<longrightarrow> st_warehouse upd = Some (entry_name w)
       \<and> (\<forall>row. row_warehouse (apply_update upd row) = Some (entry_name w))"
    using put_w by (auto simp: upd selected_name_resolved)
  have a: "(truthy_id (form_category_id n)
       \<and> (\<forall>c\<in>set cats. Some (entry_id c) \<noteq> parseInt (form_category_id n))
     \<longrightarrow> st_category ins = None)
  \<and> (\<forall>c. truthy_id (form_category_id n)
       \<and> find (\<lambda>c. Some (entry_id c) = parseInt (form_category_id n)) cats = Some c
     \<longrightarrow> st_category ins = Some (entry_name c))
  \<and> (truthy_id (form_warehouse_id n)
       \<and> (\<forall>w\<in>set whs. Some (entry_id w) \<noteq> parseInt (form_warehouse_id n))
     \<longrightarrow> st_warehouse ins = None)
  \<and> (\<forall>w. truthy_id (form_warehouse_id n)
       \<and> find (\<lambda>w. Some (entry_id w) = parseInt (form_warehouse_id n)) whs = Some w
     \<longrightarrow> st_warehouse ins = Some (entry_name w))"
    by (simp add: ins selected_name_unresolved selected_name_resolved)
  from c1 c2 w1 w2 a show ?thesis by blast
qed

theorem unresolved_id_omits_field_witness:
  "saveEditedItem (\<lambda>_. Inl ''offline'')
      [\<lparr>entry_id = 3, entry_name = ''Tools''\<rparr>] [\<lparr>entry_id = 4, entry_name = ''Main''\<rparr>]
      \<lparr>form_id = Some 1, form_name = ''Hammer'', form_category_id = IdStr ''7'',
        form_quantity = Num 5, form_price = Num 2, form_threshold = Num 10,
        form_warehouse_id = IdStr ''4'', form_thumbnail = None, form_file = None\<rparr>
   = Inr (Some 1,
          \<lparr>st_name = ''Hammer'', st_quantity = Num 5, st_price = Num 2, st_threshold = Num 10,
           st_thumbnail = None, st_category = None, st_warehouse = Some ''Main''\<rparr>)
 \<and> addItem (\<lambda>_. Inl ''offline'')
      [\<lparr>entry_id = 3, entry_name = ''Tools''\<rparr>] [\<lparr>entry_id = 4, entry_name = ''Main''\<rparr>]
      \<lparr>form_id = None, form_name = ''Saw'', form_category_id = IdStr ''3'',
        form_quantity = Num 1, form_price = Num 9, form_threshold = Num 10,
        form_warehouse_id = IdNum 8, form_thumbnail = Some '''', form_file = None\<rparr>
   = Inr \<lparr>st_name = ''Saw'', st_quantity = Num 1, st_price = Num 9, st_threshold = Num 10,
          st_thumbnail = Some '''', st_category = Some ''Tools'', st_warehouse = None\<rparr>
 \<and> saveEditedItem (\<lambda>_. Inl ''offline'')
      [\<lparr>entry_id = 3, entry_name = ''Tools''\<rparr>] [\<lparr>entry_id = 4, entry_name = ''Main''\<rparr>]
      \<lparr>form_id = None, form_name = ''Saw'', form_category_id = IdStr ''3'',
        form_quantity = Num 1, form_price = Num 9, form_threshold = Num 10,
        form_warehouse_id = IdNum 8, form_thumbnail = Some '''', form_file = None\<rparr>
   = Inr (None,
          \<lparr>st_name = ''Saw'', st_quantity = Num 1, st_price = Num 9, st_threshold = Num 10,
           st_thumbnail = Some '''', st_category = Some ''Tools'', st_warehouse = None\<rparr>)
 \<and> addItem (\<lambda>_. Inl ''offline'')
      [\<lparr>entry_id = 3, entry_name = ''Tools''\<rparr>] [\<lparr>entry_id = 4, entry_name = ''Main''\<rparr>]
      \<lparr>form_id = Some 1, form_name = ''Hammer'', form_category_id = IdStr ''7'',
        form_quantity = Num 5, form_price = Num 2, form_threshold = Num 10,
        form_warehouse_id = IdStr ''4'', form_thumbnail = None, form_file = None\<rparr>
   = Inr \<lparr>st_name = ''Hammer'', st_quantity = Num 5, st_price = Num 2, st_threshold = Num 10,
          st_thumbnail = None, st_category = None, st_warehouse = Some ''Main''\<rparr>
 \<and> map row_category (remote_update (Some 1)
      \<lparr>st_name = ''Hammer'', st_quantity = Num 5, st_price = Num 2, st_threshold = Num 10,
       st_thumbnail = None, st_category = None, st_warehouse = Some ''Main''\<rparr>
      [\<lparr>row_id = 1, row_name = ''Hammer'', row_quantity = Num 5, row_price = Num 2,
        row_threshold = Num 10, row_category = Some ''Tools'', row_warehouse = Some ''Depot'',
        row_thumbnail = None\<rparr>]) = [Some ''Tools'']
 \<and> map row_warehouse (remote_update (Some 1)
      \<lparr>st_name = ''Hammer'', st_quantity = Num 5, st_price = Num 2, st_threshold = Num 10,
       st_thumbnail = None, st_category = None, st_warehouse = Some ''Main''\<rparr>
      [\<lparr>row_id = 1, row_name = ''Hammer'', row_quantity = Num 5, row_price = Num 2,
        row_threshold = Num 10, row_category = Some ''Tools'', row_warehouse = Some ''Depot'',
        row_thumbnail = None\<rparr>]) = [Some ''Main'']"
proof -
  let ?cats = "[\<lparr>entry_id = 3, entry_name = ''Tools''\<rparr>]"
  let ?whs = "[\<lparr>entry_id = 4, entry_name = ''Main''\<rparr>]"
  let ?e = "\<lparr>form_id = Some 1, form_name = ''Hammer'', form_category_id = IdStr ''7'',
        form_quantity = Num 5, form_price = Num 2, form_threshold = Num 10,
        form_warehouse_id = IdStr ''4'', form_thumbnail = None, form_file = None\<rparr>"
  let ?n = "\<lparr>form_id = None, form_name = ''Saw'', form_category_id = IdStr ''3'',
        form_quantity = Num 1, form_price = Num 9, form_threshold = Num 10,
        form_warehouse_id = IdNum 8, form_thumbnail = Some '''', form_file = None\<rparr>"
  let ?row_e = "\<lparr>st_name = ''Hammer'', st_quantity = Num 5, st_price = Num 2,
        st_threshold = Num 10, st_thumbnail = None,
        st_category = selected_name ?cats (IdStr ''7''),
        st_warehouse = selected_name ?whs (IdStr ''4'')\<rparr>"
  let ?row_n = "\<lparr>st_name = ''Saw'', st_quantity = Num 1, st_price = Num 9,
        st_threshold = Num 10, st_thumbnail = Some '''',
        st_category = selected_name ?cats (IdStr ''3''),
        st_warehouse = selected_name ?whs (IdNum 8)\<rparr>"
  have p7: "parseInt (IdStr ''7'') = Some 7" and p4: "parseInt (IdStr ''4'') = Some 4"
    and p3: "parseInt (IdStr ''3'') = Some 3"
    by (simp_all add: parseInt_string_def is_white_space_def is_digit_of_def digit_value_def
        digits_value_def)
  have save_e: "saveEditedItem (\<lambda>_. Inl ''offline'') ?cats ?whs ?e = Inr (Some 1, ?row_e)"
    and save_n: "saveEditedItem (\<lambda>_. Inl ''offline'') ?cats ?whs ?n = Inr (None, ?row_n)"
    by (simp_all add: saveEditedItem_def thumbnail_url_def)
  have add_n: "addItem (\<lambda>_. Inl ''offline'') ?cats ?whs ?n = Inr ?row_n"
    and add_e: "addItem (\<lambda>_. Inl ''offline'') ?cats ?whs ?e = Inr ?row_e"
    by (simp_all add: addItem_def thumbnail_url_def)
  from unresolved_id_omits_field [OF save_e add_n] p7 p4 p3
  have e: "st_category ?row_e = None" "st_warehouse ?row_e = Some ''Main''"
    by simp_all
  from unresolved_id_omits_field [OF save_n add_e] p7 p4 p3
  have n: "st_category ?row_n = Some ''Tools''" "st_warehouse ?row_n = None"
    by simp_all
  from e have sel: "selected_name ?cats (IdStr ''7'') = None"
    "selected_name ?whs (IdStr ''4'') = Some ''Main''"
    by simp_all
  from unresolved_id_omits_field [OF save_e add_n, where table = "[\<lparr>row_id = 1, row_name = ''Hammer'', row_quantity = Num 5, row_price = Num 2,
          row_threshold = Num 10, row_category = Some ''Tools'', row_warehouse = Some ''Depot'',
          row_thumbnail = None\<rparr>]"] p7 p4 p3
  have kept: "map row_category (remote_update (Some 1) ?row_e
      [\<lparr>row_id = 1, row_name = ''Hammer'', row_quantity = Num 5, row_price = Num 2,
        row_threshold = Num 10, row_category = Some ''Tools'', row_warehouse = Some ''Depot'',
        row_thumbnail = None\<rparr>]) = [Some ''Tools'']"
    by (simp add: sel)
  have stored: "map row_warehouse (remote_update (Some 1) ?row_e
      [\<lparr>row_id = 1, row_name = ''Hammer'', row_quantity = Num 5, row_price = Num 2,
        row_threshold = Num 10, row_category = Some ''Tools'', row_warehouse = Some ''Depot'',
        row_thumbnail = None\<rparr>]) = [Some ''Main'']"
    using e by (simp add: remote_update_def apply_update_def)
  from e n kept stored show ?thesis
    using save_e save_n add_e add_n by simp
qed

text \<open>
  The claim as stated fails in its clause that the previous stored value is not
  preserved. The stored row has the category \<open>Tools\<close>; the form's \<open>category_id\<close> is \<open>'7'\<close>,
  which no catalog entry has; the update leaves the category out, and the row of the
  store still has \<open>Tools\<close> afterwards.
\<close>

theorem unresolved_id_keeps_stored_name_counterexample:
  "saveEditedItem (\<lambda>_. Inl ''offline'')
      [\<lparr>entry_id = 3, entry_name = ''Tools''\<rparr>] [\<lparr>entry_id = 4, entry_name = ''Main''\<rparr>]
      \<lparr>form_id = Some 1, form_name = ''Hammer'', form_category_id = IdStr ''7'',
        form_quantity = Num 6, form_price = Num 2, form_threshold = Num 10,
        form_warehouse_id = IdStr ''4'', form_thumbnail = None, form_file = None\<rparr>
   = Inr (Some 1,
          \<lparr>st_name = ''Hammer'', st_quantity = Num 6, st_price = Num 2, st_threshold = Num 10,
           st_thumbnail = None, st_category = None, st_warehouse = Some ''Main''\<rparr>)
 \<and> remote_update (Some 1)
      \<lparr>st_name = ''Hammer'', st_quantity = Num 6, st_price = Num 2, st_threshold = Num 10,
       st_thumbnail = None, st_category = None, st_warehouse = Some ''Main''\<rparr>
      [\<lparr>row_id = 1, row_name = ''Hammer'', row_quantity = Num 5, row_price = Num 2,
        row_threshold = Num 10, row_category = Some ''Tools'', row_warehouse = Some ''Main'',
        row_thumbnail = None\<rparr>]
   = [\<lparr>row_id = 1, row_name = ''Hammer'', row_quantity = Num 6, row_price = Num 2,
       row_threshold = Num 10, row_category = Some ''Tools'', row_warehouse = Some ''Main'',
       row_thumbnail = None\<rparr>]"
proof -
  have p: "parseInt_string ''7'' = Some 7" "parseInt_string ''4'' = Some 4"
    by (simp_all add: parseInt_string_def is_white_space_def is_digit_of_def digit_value_def
        digits_value_def)
  show ?thesis
    by (simp add: saveEditedItem_def thumbnail_url_def selected_name_def p remote_update_def
        apply_update_def)
qed


section \<open>Properties of pagination\<close>

text \<open>The filters of the query, read off the state of the render.\<close>

lemma passes_build_query:
  "passes like (build_query r) row =
     ((searchTerm r = [] \<or> like (''%'' @ searchTerm r @ ''%'') (row_name row))
    \<and> (filterCategory r = [] \<or> row_category row = Some (filterCategory r))
    \<and> (filterWarehouse r = [] \<or> row_warehouse row = Some (filterWarehouse r)))"
  by (simp add: passes_def build_query_def Let_def)

lemma fetchInventory_remote_totalItems:
  "totalItems (fetchInventory (remote_select like table) r st)
     = int (length (filter (passes like (build_query r)) table))"
  by (simp add: fetchInventory_def remote_select_def matching_def Let_def)

lemma fetchInventory_remote_items:
  "items (fetchInventory (remote_select like table) r st)
     = map (enhance (categories r) (warehouses r))
         (take (nat (itemsPerPage r))
            (drop (nat ((currentPage r - 1) * itemsPerPage r))
               (matching like table (build_query r))))"
  by (simp add: fetchInventory_def remote_select_def Let_def build_query_def)

lemma passes_page_independent:
  "passes like (build_query (r\<lparr>currentPage := p\<rparr>)) = passes like (build_query r)"
  by (rule ext) (simp add: passes_def build_query_def Let_def)

lemma totalPages_least:
  assumes "0 < itemsPerPage st"
  shows "totalItems st \<le> totalPages st * itemsPerPage st"
    and "(totalPages st - 1) * itemsPerPage st < totalItems st"
proof -
  let ?s = "real_of_int (itemsPerPage st)" and ?t = "real_of_int (totalItems st)"
  from assms have s: "0 < ?s" by simp
  have "?t / ?s \<le> real_of_int (totalPages st)"
    by (simp add: totalPages_def)
  with s have "?t \<le> real_of_int (totalPages st) * ?s"
    by (simp add: pos_divide_le_eq)
  then have "?t \<le> real_of_int (totalPages st * itemsPerPage st)" by simp
  then show "totalItems st \<le> totalPages st * itemsPerPage st" by linarith
  have "real_of_int (totalPages st) - 1 < ?t / ?s"
    unfolding totalPages_def by linarith
  with s have "(real_of_int (totalPages st) - 1) * ?s < ?t"
    by (simp add: pos_less_divide_eq)
  then have "real_of_int ((totalPages st - 1) * itemsPerPage st) < ?t" by simp
  then show "(totalPages st - 1) * itemsPerPage st < totalItems st" by linarith
qed

lemma fetchInventory_remote_keeps:
  "itemsPerPage (fetchInventory (remote_select like table) r st) = itemsPerPage st"
  "currentPage (fetchInventory (remote_select like table) r st) = currentPage st"
  by (simp_all add: fetchInventory_def remote_select_def Let_def)

lemma page_past_last_is_empty:
  assumes "0 < itemsPerPage r" and "itemsPerPage st = itemsPerPage r"
    and "totalPages (fetchInventory (remote_select like table) r st) < currentPage r"
  shows "items (fetchInventory (remote_select like table) r st) = []"
proof -
  let ?st' = "fetchInventory (remote_select like table) r st"
  let ?rows = "matching like table (build_query r)"
  have s': "0 < itemsPerPage ?st'"
    using assms(1,2) by (simp add: fetchInventory_remote_keeps)
  have n: "totalItems ?st' = int (length ?rows)"
    by (simp add: fetchInventory_remote_totalItems matching_def)
  from assms(3) have "totalPages ?st' \<le> currentPage r - 1" by simp
  with assms(1) have "totalPages ?st' * itemsPerPage r \<le> (currentPage r - 1) * itemsPerPage r"
    by (simp add: mult_right_mono)
  moreover from totalPages_least(1) [OF s']
  have "int (length ?rows) \<le> totalPages ?st' * itemsPerPage r"
    by (simp add: n fetchInventory_remote_keeps assms(2))
  ultimately have "int (length ?rows) \<le> (currentPage r - 1) * itemsPerPage r" by linarith
  then have "length ?rows \<le> nat ((currentPage r - 1) * itemsPerPage r)" by linarith
  then show ?thesis by (simp add: fetchInventory_remote_items)
qed

text \<open>
  C6. \<open>fetchInventory\<close> reads the page number \<open>p \<ge> 1\<close>, the page size \<open>s > 0\<close> and the
  filters of its render. It asks for the inclusive window from \<open>(p - 1) * s\<close> to
  \<open>p * s - 1\<close>, with the search term as the pattern \<open>%term%\<close> and each filter that is set.
  Against the store as the specification describes it, the count it records is the
  number of rows whose name matches the search term (if one is set), whose category is
  the category filter (if set) and whose warehouse is the warehouse filter (if set),
  whatever the page number; the items are that window of those rows ordered by name, and
  a page past the last one has no items. \<open>totalPages\<close> is the ceiling of
  \<open>totalItems / itemsPerPage\<close>: the least number of pages of that size that hold all the
  rows.
\<close>

theorem pagination_window_and_total:
  assumes "1 \<le> currentPage r" and "0 < itemsPerPage r" and "itemsPerPage st = itemsPerPage r"
  shows "range_from (build_query r) = (currentPage r - 1) * itemsPerPage r
       \<and> range_to (build_query r) = currentPage r * itemsPerPage r - 1
       \<and> ilike_name (build_query r)
            = (if searchTerm r = [] then None else Some (''%'' @ searchTerm r @ ''%''))
       \<and> eq_category (build_query r)
            = (if filterCategory r = [] then None else Some (filterCategory r))
       \<and> eq_warehouse (build_query r)
            = (if filterWarehouse r = [] then None else Some (filterWarehouse r))
       \<and> totalItems (fetchInventory (remote_select like table) r st)
            = int (length (filter
                (\<lambda>row. (searchTerm r = [] \<or> like (''%'' @ searchTerm r @ ''%'') (row_name row))
                     \<and> (filterCategory r = [] \<or> row_category row = Some (filterCategory r))
                     \<and> (filterWarehouse r = [] \<or> row_warehouse row = Some (filterWarehouse r)))
                table))
       \<and> (\<forall>p. totalItems (fetchInventory (remote_select like table) (r\<lparr>currentPage := p\<rparr>) st)
            = totalItems (fetchInventory (remote_select like table) r st))
       \<and> items (fetchInventory (remote_select like table) r st)
            = map (enhance (categories r) (warehouses r))
                (take (nat (itemsPerPage r))
                   (drop (nat ((currentPage r - 1) * itemsPerPage r))
                      (sort_key row_name (filter
                         (\<lambda>row. (searchTerm r = [] \<or> like (''%'' @ searchTerm r @ ''%'') (row_name row))
                              \<and> (filterCategory r = [] \<or> row_category row = Some (filterCategory r))
                              \<and> (filterWarehouse r = [] \<or> row_warehouse row = Some (filterWarehouse r)))
                         table))))
       \<and> (totalPages (fetchInventory (remote_select like table) r st) < currentPage r
            \<longrightarrow> items (fetchInventory (remote_select like table) r st) = [])
       \<and> totalPages st = \<lceil>real_of_int (totalItems st) / real_of_int (itemsPerPage st)\<rceil>
       \<and> totalItems st \<le> totalPages st * itemsPerPage st
       \<and> (totalPages st - 1) * itemsPerPage st < totalItems st"
proof -
  let ?P = "\<lambda>row. (searchTerm r = [] \<or> like (''%'' @ searchTerm r @ ''%'') (row_name row))
                     \<and> (filterCategory r = [] \<or> row_category row = Some (filterCategory r))
                     \<and> (filterWarehouse r = [] \<or> row_warehouse row = Some (filterWarehouse r))"
  have P: "passes like (build_query r) = ?P"
    by (rule ext) (rule passes_build_query)
  have w1: "range_from (build_query r) = (currentPage r - 1) * itemsPerPage r"
    by (simp add: build_query_def Let_def)
  have w2: "range_to (build_query r) = currentPage r * itemsPerPage r - 1"
    by (simp add: build_query_def Let_def algebra_simps)
  have f1: "ilike_name (build_query r)
            = (if searchTerm r = [] then None else Some (''%'' @ searchTerm r @ ''%''))"
    and f2: "eq_category (build_query r)
            = (if filterCategory r = [] then None else Some (filterCategory r))"
    and f3: "eq_warehouse (build_query r)
            = (if filterWarehouse r = [] then None else Some (filterWarehouse r))"
    by (simp_all add: build_query_def Let_def)
  have n: "totalItems (fetchInventory (remote_select like table) r st)
            = int (length (filter ?P table))"
    by (simp only: fetchInventory_remote_totalItems P)
  have c: "\<forall>p. totalItems (fetchInventory (remote_select like table) (r\<lparr>currentPage := p\<rparr>) st)
            = totalItems (fetchInventory (remote_select like table) r st)"
    by (simp add: fetchInventory_remote_totalItems passes_page_independent)
  have i: "items (fetchInventory (remote_select like table) r st)
            = map (enhance (categories r) (warehouses r))
                (take (nat (itemsPerPage r))
                   (drop (nat ((currentPage r - 1) * itemsPerPage r))
                      (sort_key row_name (filter ?P table))))"
    by (simp only: fetchInventory_remote_items matching_def P)
  have e: "totalPages (fetchInventory (remote_select like table) r st) < currentPage r
            \<longrightarrow> items (fetchInventory (remote_select like table) r st) = []"
    using page_past_last_is_empty [OF assms(2,3)] by blast
  have t: "totalPages st = \<lceil>real_of_int (totalItems st) / real_of_int (itemsPerPage st)\<rceil>"
    by (simp add: totalPages_def)
  have s: "0 < itemsPerPage st" using assms(2,3) by simp
  note l = totalPages_least [OF s]
  show ?thesis
    by (intro conjI) (rule w1 w2 f1 f2 f3 n c i e t l)+
qed

theorem pagination_window_and_total_witness:
  "range_from (build_query
      \<lparr>items = [], categories = [\<lparr>entry_id = 3, entry_name = ''Tools''\<rparr>],
        warehouses = [\<lparr>entry_id = 4, entry_name = ''Main''\<rparr>], loading = False,
        currentPage = 3, itemsPerPage = 10, totalItems = 25, searchTerm = ''ham'',
        filterCategory = ''Tools'', filterWarehouse = ''Main'', error = None\<rparr>) = 20
 \<and> range_to (build_query
      \<lparr>items = [], categories = [\<lparr>entry_id = 3, entry_name = ''Tools''\<rparr>],
        warehouses = [\<lparr>entry_id = 4, entry_name = ''Main''\<rparr>], loading = False,
        currentPage = 3, itemsPerPage = 10, totalItems = 25, searchTerm = ''ham'',
        filterCategory = ''Tools'', filterWarehouse = ''Main'', error = None\<rparr>) = 29
 \<and> ilike_name (build_query
      \<lparr>items = [], categories = [\<lparr>entry_id = 3, entry_name = ''Tools''\<rparr>],
        warehouses = [\<lparr>entry_id = 4, entry_name = ''Main''\<rparr>], loading = False,
        currentPage = 3, itemsPerPage = 10, totalItems = 25, searchTerm = ''ham'',
        filterCategory = ''Tools'', filterWarehouse = ''Main'', error = None\<rparr>) = Some ''%ham%''
 \<and> totalPages
      \<lparr>items = [], categories = [\<lparr>entry_id = 3, entry_name = ''Tools''\<rparr>],
        warehouses = [\<lparr>entry_id = 4, entry_name = ''Main''\<rparr>], loading = False,
        currentPage = 3, itemsPerPage = 10, totalItems = 25, searchTerm = ''ham'',
        filterCategory = ''Tools'', filterWarehouse = ''Main'', error = None\<rparr> = 3
 \<and> totalItems (fetchInventory (remote_select ilike
        [\<lparr>row_id = 1, row_name = ''Hammer'', row_quantity = Num 5, row_price = Num 2,
           row_threshold = Num 10, row_category = Some ''Tools'',
           row_warehouse = Some ''Main'', row_thumbnail = None\<rparr>,
         \<lparr>row_id = 2, row_name = ''Saw'', row_quantity = Num 5, row_price = Num 2,
           row_threshold = Num 10, row_category = Some ''Tools'',
           row_warehouse = Some ''Main'', row_thumbnail = None\<rparr>,
         \<lparr>row_id = 3, row_name = ''Claw hammer'', row_quantity = Num 5, row_price = Num 2,
           row_threshold = Num 10, row_category = Some ''Tools'',
           row_warehouse = Some ''Main'', row_thumbnail = None\<rparr>,
         \<lparr>row_id = 4, row_name = ''Hammer drill'', row_quantity = Num 5, row_price = Num 2,
           row_threshold = Num 10, row_category = Some ''Power'',
           row_warehouse = Some ''Main'', row_thumbnail = None\<rparr>,
         \<lparr>row_id = 5, row_name = ''Hammock'', row_quantity = Num 5, row_price = Num 2,
           row_threshold = Num 10, row_category = Some ''Tools'',
           row_warehouse = None, row_thumbnail = None\<rparr>])
      \<lparr>items = [], categories = [\<lparr>entry_id = 3, entry_name = ''Tools''\<rparr>],
        warehouses = [\<lparr>entry_id = 4, entry_name = ''Main''\<rparr>], loading = False,
        currentPage = 3, itemsPerPage = 10, totalItems = 25, searchTerm = ''ham'',
        filterCategory = ''Tools'', filterWarehouse = ''Main'', error = None\<rparr>
      \<lparr>items = [], categories = [\<lparr>entry_id = 3, entry_name = ''Tools''\<rparr>],
        warehouses = [\<lparr>entry_id = 4, entry_name = ''Main''\<rparr>], loading = False,
        currentPage = 3, itemsPerPage = 10, totalItems = 25, searchTerm = ''ham'',
        filterCategory = ''Tools'', filterWarehouse = ''Main'', error = None\<rparr>) = 2
 \<and> items (fetchInventory (remote_select ilike
        [\<lparr>row_id = 1, row_name = ''Hammer'', row_quantity = Num 5, row_price = Num 2,
           row_threshold = Num 10, row_category = Some ''Tools'',
           row_warehouse = Some ''Main'', row_thumbnail = None\<rparr>,
         \<lparr>row_id = 2, row_name = ''Saw'', row_quantity = Num 5, row_price = Num 2,
           row_threshold = Num 10, row_category = Some ''Tools'',
           row_warehouse = Some ''Main'', row_thumbnail = None\<rparr>,
         \<lparr>row_id = 3, row_name = ''Claw hammer'', row_quantity = Num 5, row_price = Num 2,
           row_threshold = Num 10, row_category = Some ''Tools'',
           row_warehouse = Some ''Main'', row_thumbnail = None\<rparr>,
         \<lparr>row_id = 4, row_name = ''Hammer drill'', row_quantity = Num 5, row_price = Num 2,
           row_threshold = Num 10, row_category = Some ''Power'',
           row_warehouse = Some ''Main'', row_thumbnail = None\<rparr>,
         \<lparr>row_id = 5, row_name = ''Hammock'', row_quantity = Num 5, row_price = Num 2,
           row_threshold = Num 10, row_category = Some ''Tools'',
           row_warehouse = None, row_thumbnail = None\<rparr>])
      \<lparr>items = [], categories = [\<lparr>entry_id = 3, entry_name = ''Tools''\<rparr>],
        warehouses = [\<lparr>entry_id = 4, entry_name = ''Main''\<rparr>], loading = False,
        currentPage = 3, itemsPerPage = 10, totalItems = 25, searchTerm = ''ham'',
        filterCategory = ''Tools'', filterWarehouse = ''Main'', error = None\<rparr>
      \<lparr>items = [], categories = [\<lparr>entry_id = 3, entry_name = ''Tools''\<rparr>],
        warehouses = [\<lparr>entry_id = 4, entry_name = ''Main''\<rparr>], loading = False,
        currentPage = 3, itemsPerPage = 10, totalItems = 25, searchTerm = ''ham'',
        filterCategory = ''Tools'', filterWarehouse = ''Main'', error = None\<rparr>) = []
 \<and> items (fetchInventory (remote_select ilike
        [\<lparr>row_id = 1, row_name = ''Hammer'', row_quantity = Num 5, row_price = Num 2,
           row_threshold = Num 10, row_category = Some ''Tools'',
           row_warehouse = Some ''Main'', row_thumbnail = None\<rparr>,
         \<lparr>row_id = 2, row_name = ''Saw'', row_quantity = Num 5, row_price = Num 2,
           row_threshold = Num 10, row_category = Some ''Tools'',
           row_warehouse = Some ''Main'', row_thumbnail = None\<rparr>,
         \<lparr>row_id = 3, row_name = ''Claw hammer'', row_quantity = Num 5, row_price = Num 2,
           row_threshold = Num 10, row_category = Some ''Tools'',
           row_warehouse = Some ''Main'', row_thumbnail = None\<rparr>,
         \<lparr>row_id = 4, row_name = ''Hammer drill'', row_quantity = Num 5, row_price = Num 2,
           row_threshold = Num 10, row_category = Some ''Power'',
           row_warehouse = Some ''Main'', row_thumbnail = None\<rparr>,
         \<lparr>row_id = 5, row_name = ''Hammock'', row_quantity = Num 5, row_price = Num 2,
           row_threshold = Num 10, row_category = Some ''Tools'',
           row_warehouse = None, row_thumbnail = None\<rparr>])
      \<lparr>items = [], categories = [\<lparr>entry_id = 3, entry_name = ''Tools''\<rparr>],
        warehouses = [\<lparr>entry_id = 4, entry_name = ''Main''\<rparr>], loading = False,
        currentPage = 1, itemsPerPage = 10, totalItems = 25, searchTerm = ''ham'',
        filterCategory = ''Tools'', filterWarehouse = ''Main'', error = None\<rparr>
      \<lparr>items = [], categories = [\<lparr>entry_id = 3, entry_name = ''Tools''\<rparr>],
        warehouses = [\<lparr>entry_id = 4, entry_name = ''Main''\<rparr>], loading = False,
        currentPage = 1, itemsPerPage = 10, totalItems = 25, searchTerm = ''ham'',
        filterCategory = ''Tools'', filterWarehouse = ''Main'', error = None\<rparr>)
   = [\<lparr>item_id = 3, item_name = ''Claw hammer'', item_quantity = Num 5, item_price = Num 2,
         item_threshold = Num 10, item_thumbnail = None,
         item_category = Some \<lparr>ref_id = Some 3, ref_name = ''Tools''\<rparr>,
         item_warehouse = Some \<lparr>ref_id = Some 4, ref_name = ''Main''\<rparr>,
         item_category_id = IdNum 3, item_warehouse_id = IdNum 4\<rparr>,
        \<lparr>item_id = 1, item_name = ''Hammer'', item_quantity = Num 5, item_price = Num 2,
         item_threshold = Num 10, item_thumbnail = None,
         item_category = Some \<lparr>ref_id = Some 3, ref_name = ''Tools''\<rparr>,
         item_warehouse = Some \<lparr>ref_id = Some 4, ref_name = ''Main''\<rparr>,
         item_category_id = IdNum 3, item_warehouse_id = IdNum 4\<rparr>]"
proof -
  let ?table = "[\<lparr>row_id = 1, row_name = ''Hammer'', row_quantity = Num 5, row_price = Num 2,
           row_threshold = Num 10, row_category = Some ''Tools'',
           row_warehouse = Some ''Main'', row_thumbnail = None\<rparr>,
         \<lparr>row_id = 2, row_name = ''Saw'', row_quantity = Num 5, row_price = Num 2,
           row_threshold = Num 10, row_category = Some ''Tools'',
           row_warehouse = Some ''Main'', row_thumbnail = None\<rparr>,
         \<lparr>row_id = 3, row_name = ''Claw hammer'', row_quantity = Num 5, row_price = Num 2,
           row_threshold = Num 10, row_category = Some ''Tools'',
           row_warehouse = Some ''Main'', row_thumbnail = None\<rparr>,
         \<lparr>row_id = 4, row_name = ''Hammer drill'', row_quantity = Num 5, row_price = Num 2,
           row_threshold = Num 10, row_category = Some ''Power'',
           row_warehouse = Some ''Main'', row_thumbnail = None\<rparr>,
         \<lparr>row_id = 5, row_name = ''Hammock'', row_quantity = Num 5, row_price = Num 2,
           row_threshold = Num 10, row_category = Some ''Tools'',
           row_warehouse = None, row_thumbnail = None\<rparr>]"
  let ?r3 = "\<lparr>items = [], categories = [\<lparr>entry_id = 3, entry_name = ''Tools''\<rparr>],
        warehouses = [\<lparr>entry_id = 4, entry_name = ''Main''\<rparr>], loading = False,
        currentPage = 3, itemsPerPage = 10, totalItems = 25, searchTerm = ''ham'',
        filterCategory = ''Tools'', filterWarehouse = ''Main'', error = None\<rparr>"
  let ?r1 = "\<lparr>items = [], categories = [\<lparr>entry_id = 3, entry_name = ''Tools''\<rparr>],
        warehouses = [\<lparr>entry_id = 4, entry_name = ''Main''\<rparr>], loading = False,
        currentPage = 1, itemsPerPage = 10, totalItems = 25, searchTerm = ''ham'',
        filterCategory = ''Tools'', filterWarehouse = ''Main'', error = None\<rparr>"
  let ?st3 = "fetchInventory (remote_select ilike ?table) ?r3 ?r3"
  have like: "ilike ''%ham%'' ''Hammer''" "\<not> ilike ''%ham%'' ''Saw''"
    "ilike ''%ham%'' ''Claw hammer''" "ilike ''%ham%'' ''Hammer drill''"
    "ilike ''%ham%'' ''Hammock''"
    by code_simp+
  have ord: "''Claw hammer'' \<le> ''Hammer''"
    by code_simp
  have p3: "1 \<le> currentPage ?r3" "0 < itemsPerPage ?r3" "itemsPerPage ?r3 = itemsPerPage ?r3"
    and p1: "1 \<le> currentPage ?r1" "0 < itemsPerPage ?r1" "itemsPerPage ?r1 = itemsPerPage ?r1"
    by simp_all
  note th3 = pagination_window_and_total [OF p3, of ilike ?table]
  note th1 = pagination_window_and_total [OF p1, of ilike ?table]
  from th3 have w: "range_from (build_query ?r3) = 20" "range_to (build_query ?r3) = 29"
    "ilike_name (build_query ?r3) = Some ''%ham%''"
    by simp_all
  from th3 have tp: "totalPages ?r3 = 3"
    by (simp add: ceiling_eq_iff)
  from th3 have n: "totalItems ?st3 = 2"
    by (simp add: like)
  have "totalPages ?st3 = \<lceil>real_of_int (totalItems ?st3) / real_of_int (itemsPerPage ?st3)\<rceil>"
    by (simp add: totalPages_def)
  also have "\<dots> = 1"
    by (simp add: n fetchInventory_remote_keeps ceiling_eq_iff)
  finally have "totalPages ?st3 < currentPage ?r3" by simp
  with th3 have e: "items ?st3 = []" by blast
  from th1 have i: "items (fetchInventory (remote_select ilike ?table) ?r1 ?r1)
   = [\<lparr>item_id = 3, item_name = ''Claw hammer'', item_quantity = Num 5, item_price = Num 2,
           item_threshold = Num 10, item_thumbnail = None,
           item_category = Some \<lparr>ref_id = Some 3, ref_name = ''Tools''\<rparr>,
           item_warehouse = Some \<lparr>ref_id = Some 4, ref_name = ''Main''\<rparr>,
           item_category_id = IdNum 3, item_warehouse_id = IdNum 4\<rparr>,
          \<lparr>item_id = 1, item_name = ''Hammer'', item_quantity = Num 5, item_price = Num 2,
           item_threshold = Num 10, item_thumbnail = None,
           item_category = Some \<lparr>ref_id = Some 3, ref_name = ''Tools''\<rparr>,
           item_warehouse = Some \<lparr>ref_id = Some 4, ref_name = ''Main''\<rparr>,
           item_category_id = IdNum 3, item_warehouse_id = IdNum 4\<rparr>]"
    by (simp add: like ord enhance_def attach_def id_or_empty_def Let_def)
  from w tp n e i show ?thesis by simp
qed



section \<open>Properties of the numeric form fields\<close>

lemma coerce_number_eq:
  "coerce_number parseFloat v = (if parseFloat v = NaN then Num 0 else parseFloat v)"
  by (cases "parseFloat v") (simp_all add: coerce_number_def)

lemma saveEditedItem_no_file:
  "form_file e = None \<Longrightarrow>
   saveEditedItem uploadImage cats whs e =
     Inr (form_id e,
          \<lparr>st_name = form_name e, st_quantity = form_quantity e, st_price = form_price e,
           st_threshold = form_threshold e, st_thumbnail = form_thumbnail e,
           st_category = selected_name cats (form_category_id e),
           st_warehouse = selected_name whs (form_warehouse_id e)\<rparr>)"
  by (simp add: saveEditedItem_def thumbnail_url_def)

lemma saveEditedItem_fails_only_on_upload:
  "saveEditedItem uploadImage cats whs e = Inl msg \<Longrightarrow>
   \<exists>f. form_file e = Some f \<and> uploadImage f = Inl msg"
  by (auto simp: saveEditedItem_def thumbnail_url_def split: option.splits sum.splits)

text \<open>
  C8. For the inputs named \<open>quantity\<close>, \<open>price\<close> and \<open>threshold\<close>, of the new item form and
  of the edit form alike, the value stored on the form is \<open>parseFloat\<close> of the input, and
  \<open>0\<close> when \<open>parseFloat\<close> gives \<open>NaN\<close>. The stored value is therefore always a number, and
  \<open>saveEditedItem\<close> writes it as it is: the only failure before the update is sent is a
  failed upload of a chosen file.
\<close>

theorem numeric_fields_coerced:
  "form_quantity (handleInputChange parseFloat ''quantity'' v form)
     = (if parseFloat v = NaN then Num 0 else parseFloat v)
 \<and> form_price (handleInputChange parseFloat ''price'' v form)
     = (if parseFloat v = NaN then Num 0 else parseFloat v)
 \<and> form_threshold (handleInputChange parseFloat ''threshold'' v form)
     = (if parseFloat v = NaN then Num 0 else parseFloat v)
 \<and> form_quantity (handleEditChange parseFloat ''quantity'' v form)
     = (if parseFloat v = NaN then Num 0 else parseFloat v)
 \<and> form_price (handleEditChange parseFloat ''price'' v form)
     = (if parseFloat v = NaN then Num 0 else parseFloat v)
 \<and> form_threshold (handleEditChange parseFloat ''threshold'' v form)
     = (if parseFloat v = NaN then Num 0 else parseFloat v)
 \<and> form_quantity (handleEditChange parseFloat ''quantity'' v form) \<noteq> NaN
 \<and> form_price (handleEditChange parseFloat ''price'' v form) \<noteq> NaN
 \<and> form_threshold (handleEditChange parseFloat ''threshold'' v form) \<noteq> NaN
 \<and> (case saveEditedItem uploadImage cats whs (handleEditChange parseFloat ''quantity'' v form) of
       Inr (i, upd) \<Rightarrow> st_quantity upd = (if parseFloat v = NaN then Num 0 else parseFloat v)
     | Inl msg \<Rightarrow> (\<exists>f. form_file form = Some f \<and> uploadImage f = Inl msg))"
proof -
  have sv: "(case saveEditedItem uploadImage cats whs (handleEditChange parseFloat ''quantity'' v form) of
       Inr (i, upd) \<Rightarrow> st_quantity upd = (if parseFloat v = NaN then Num 0 else parseFloat v)
     | Inl msg \<Rightarrow> (\<exists>f. form_file form = Some f \<and> uploadImage f = Inl msg))"
    by (auto simp: saveEditedItem_def thumbnail_url_def handleEditChange_def set_property_def
        coerce_number_eq Let_def split: option.splits sum.splits)
  show ?thesis
    using sv
    by (simp add: handleInputChange_def handleEditChange_def set_property_def
        coerce_number_eq Let_def)
qed

theorem numeric_fields_coerced_witness:
  "form_quantity (handleEditChange (\<lambda>s. if s = ''12.5'' then Num 12.5 else NaN) ''quantity'' ''abc''
      \<lparr>form_id = Some 1, form_name = ''Hammer'', form_category_id = IdNum 3,
        form_quantity = Num 5, form_price = Num 2, form_threshold = Num 10,
        form_warehouse_id = IdNum 4, form_thumbnail = None, form_file = None\<rparr>) = Num 0
 \<and> form_price (handleInputChange (\<lambda>s. if s = ''12.5'' then Num 12.5 else NaN) ''price'' ''12.5''
      \<lparr>form_id = None, form_name = ''Saw'', form_category_id = IdStr '''',
        form_quantity = Num 0, form_price = Num 0, form_threshold = Num 10,
        form_warehouse_id = IdStr '''', form_thumbnail = Some '''', form_file = None\<rparr>) = Num 12.5
 \<and> saveEditedItem (\<lambda>_. Inl ''offline'')
      [\<lparr>entry_id = 3, entry_name = ''Tools''\<rparr>] [\<lparr>entry_id = 4, entry_name = ''Main''\<rparr>]
      (handleEditChange (\<lambda>s. if s = ''12.5'' then Num 12.5 else NaN) ''quantity'' ''abc''
        \<lparr>form_id = Some 1, form_name = ''Hammer'', form_category_id = IdNum 3,
          form_quantity = Num 5, form_price = Num 2, form_threshold = Num 10,
          form_warehouse_id = IdNum 4, form_thumbnail = None, form_file = None\<rparr>)
   = Inr (Some 1,
          \<lparr>st_name = ''Hammer'', st_quantity = Num 0, st_price = Num 2, st_threshold = Num 10,
           st_thumbnail = None, st_category = Some ''Tools'', st_warehouse = Some ''Main''\<rparr>)"
proof -
  let ?pf = "\<lambda>s. if s = ''12.5'' then Num 12.5 else NaN"
  let ?e = "\<lparr>form_id = Some 1, form_name = ''Hammer'', form_category_id = IdNum 3,
        form_quantity = Num 5, form_price = Num 2, form_threshold = Num 10,
        form_warehouse_id = IdNum 4, form_thumbnail = None, form_file = None\<rparr>"
  let ?n = "\<lparr>form_id = None, form_name = ''Saw'', form_category_id = IdStr '''',
        form_quantity = Num 0, form_price = Num 0, form_threshold = Num 10,
        form_warehouse_id = IdStr '''', form_thumbnail = Some '''', form_file = None\<rparr>"
  from numeric_fields_coerced [of ?pf "''abc''" ?e]
  have q: "form_quantity (handleEditChange ?pf ''quantity'' ''abc'' ?e) = Num 0"
    by simp
  from numeric_fields_coerced [of ?pf "''12.5''" ?n]
  have p: "form_price (handleInputChange ?pf ''price'' ''12.5'' ?n) = Num 12.5"
    by simp
  have s: "saveEditedItem (\<lambda>_. Inl ''offline'')
      [\<lparr>entry_id = 3, entry_name = ''Tools''\<rparr>] [\<lparr>entry_id = 4, entry_name = ''Main''\<rparr>]
      (handleEditChange ?pf ''quantity'' ''abc'' ?e)
   = Inr (Some 1,
          \<lparr>st_name = ''Hammer'', st_quantity = Num 0, st_price = Num 2, st_threshold = Num 10,
           st_thumbnail = None, st_category = Some ''Tools'', st_warehouse = Some ''Main''\<rparr>)"
    by (simp add: saveEditedItem_def thumbnail_url_def handleEditChange_def set_property_def
        coerce_number_def selected_name_def Let_def)
  from q p s show ?thesis by simp
qed

section \<open>Properties of the status badge\<close>

text \<open>
  C9. The badge reads "Low Stock" exactly when \<open>quantity <= threshold\<close> and "In Stock"
  otherwise; for finite numbers this is the order of the reals. Quantity 5 with threshold
  10 is low, 11 with 10 is in stock, and equality (10 with 10) is low.
\<close>

theorem status_badge_low_iff:
  "(status_badge item = ''Low Stock'') = js_le (item_quantity item) (item_threshold item)
 \<and> (status_badge item = ''In Stock'') = (\<not> js_le (item_quantity item) (item_threshold item))
 \<and> status_badge (item\<lparr>item_quantity := Num q, item_threshold := Num t\<rparr>)
     = (if q \<le> t then ''Low Stock'' else ''In Stock'')
 \<and> status_badge (item\<lparr>item_quantity := Num 5, item_threshold := Num 10\<rparr>) = ''Low Stock''
 \<and> status_badge (item\<lparr>item_quantity := Num 11, item_threshold := Num 10\<rparr>) = ''In Stock''
 \<and> status_badge (item\<lparr>item_quantity := Num 10, item_threshold := Num 10\<rparr>) = ''Low Stock''"
  by (simp add: status_badge_def)

section \<open>Properties of page and filter changes\<close>

text \<open>
  C10. Each change of the search term, the category filter or the warehouse filter sets
  \<open>currentPage\<close> to 1. \<open>changePage\<close> changes \<open>currentPage\<close> only to a page between 1 and
  \<open>totalPages\<close>, and leaves it as it is otherwise. So whenever an action leaves
  \<open>currentPage\<close> different from 1, either it was so before, or the action is an in-range
  page change to that page. \<open>fetchInventory\<close> does not write \<open>currentPage\<close>.
\<close>

theorem filter_change_resets_page:
  "currentPage (handleSearchChange v st) = 1
 \<and> currentPage (onChange_filterCategory v st) = 1
 \<and> currentPage (onChange_filterWarehouse v st) = 1
 \<and> (1 \<le> page \<and> page \<le> totalPages st \<longrightarrow> currentPage (changePage page st) = page)
 \<and> (page < 1 \<or> totalPages st < page \<longrightarrow> changePage page st = st)
 \<and> (currentPage (perform a st) \<noteq> 1 \<longrightarrow>
        currentPage (perform a st) = currentPage st
      \<or> (\<exists>p. a = ChangePage p \<and> 1 \<le> p \<and> p \<le> totalPages st \<and> currentPage (perform a st) = p))
 \<and> currentPage (fetchInventory store render st) = currentPage st"
proof -
  have step: "currentPage (perform a st) \<noteq> 1 \<longrightarrow>
        currentPage (perform a st) = currentPage st
      \<or> (\<exists>p. a = ChangePage p \<and> 1 \<le> p \<and> p \<le> totalPages st \<and> currentPage (perform a st) = p)"
    by (cases a)
       (simp_all add: handleSearchChange_def onChange_filterCategory_def
          onChange_filterWarehouse_def changePage_def)
  have fetch: "currentPage (fetchInventory store render st) = currentPage st"
    by (simp add: fetchInventory_def Let_def split: option.splits)
  show ?thesis
    using step fetch
    by (simp add: handleSearchChange_def onChange_filterCategory_def
        onChange_filterWarehouse_def changePage_def)
qed

theorem filter_change_resets_page_witness:
  "currentPage (perform (ChangePage 7)
      \<lparr>items = [], categories = [], warehouses = [], loading = False, currentPage = 4,
        itemsPerPage = 10, totalItems = 95, searchTerm = '''', filterCategory = '''',
        filterWarehouse = '''', error = None\<rparr>) = 7
 \<and> changePage 11
      \<lparr>items = [], categories = [], warehouses = [], loading = False, currentPage = 4,
        itemsPerPage = 10, totalItems = 95, searchTerm = '''', filterCategory = '''',
        filterWarehouse = '''', error = None\<rparr>
   = \<lparr>items = [], categories = [], warehouses = [], loading = False, currentPage = 4,
        itemsPerPage = 10, totalItems = 95, searchTerm = '''', filterCategory = '''',
        filterWarehouse = '''', error = None\<rparr>
 \<and> currentPage (perform (SearchChange ''ham'')
      \<lparr>items = [], categories = [], warehouses = [], loading = False, currentPage = 4,
        itemsPerPage = 10, totalItems = 95, searchTerm = '''', filterCategory = '''',
        filterWarehouse = '''', error = None\<rparr>) = 1"
proof -
  let ?st = "\<lparr>items = [], categories = [], warehouses = [], loading = False, currentPage = 4,
        itemsPerPage = 10, totalItems = 95, searchTerm = '''', filterCategory = '''',
        filterWarehouse = '''', error = None\<rparr>"
  have tp: "totalPages ?st = 10"
    by (simp add: totalPages_def ceiling_eq_iff)
  from filter_change_resets_page [where st = ?st and page = 7 and v = "''ham''"] tp
  have a: "currentPage (changePage 7 ?st) = 7"
    and c: "currentPage (handleSearchChange ''ham'' ?st) = 1"
    by simp_all
  from filter_change_resets_page [where st = ?st and page = 11] tp
  have b: "changePage 11 ?st = ?st"
    by simp
  from a b c show ?thesis by simp
qed


section \<open>Properties of the search timer\<close>

text \<open>While the timeout is pending, a keystroke replaces it by one due 500 ms later.\<close>

lemma keystroke_reschedules:
  assumes "v \<noteq> searchTerm (ui rt)"
  shows "delaySearch (keystroke t v rt) = Some (t + 500)"
  using assms
  by (simp add: keystroke_def run_effects_def advance_def deps_delaySearch_def
      handleSearchChange_def Let_def split: option.splits)

lemma keystroke_cancels_pending:
  assumes "v \<noteq> searchTerm (ui rt)" and "delaySearch rt = Some due" and "t < due"
  shows "filter (\<lambda>(t', origin). origin = DelaySearch) (fetches (keystroke t v rt))
           = filter (\<lambda>(t', origin). origin = DelaySearch) (fetches rt)"
  using assms
  by (simp add: keystroke_def run_effects_def advance_def deps_delaySearch_def
      deps_loadData_def handleSearchChange_def Let_def)

text \<open>Every keystroke that changes the search term triggers a fetch at once.\<close>

lemma keystroke_fetches_at_once:
  assumes "v \<noteq> searchTerm (ui rt)"
  shows "(t, LoadData) \<in> set (fetches (keystroke t v rt))"
  using assms
  by (simp add: keystroke_def run_effects_def advance_def deps_delaySearch_def
      deps_loadData_def handleSearchChange_def Let_def split: option.splits)

text \<open>
  C7. The claim: five keystrokes, each within 100 ms of the one before, trigger exactly
  one fetch of the inventory, 500 ms after the last. On the code, the timeout does fire
  once, 500 ms after the last keystroke, but the effect that calls \<open>loadData\<close> has
  \<open>searchTerm\<close> among its dependencies and triggers a fetch at every keystroke: six
  fetches in all.
\<close>

theorem five_keystrokes_six_fetches:
  "fetches (advance 5000
     (keystrokes [(1000, ''h''), (1100, ''ha''), (1200, ''ham''), (1300, ''hamm''), (1400, ''hamme'')]
        \<lparr>ui = \<lparr>items = [], categories = [], warehouses = [], loading = False,
                 currentPage = 1, itemsPerPage = 10, totalItems = 0, searchTerm = '''',
                 filterCategory = '''', filterWarehouse = '''', error = None\<rparr>,
          clock = 0, delaySearch = None, fetches = []\<rparr>))
   = [(1000, LoadData), (1100, LoadData), (1200, LoadData), (1300, LoadData),
      (1400, LoadData), (1900, DelaySearch)]"
  by (simp add: keystroke_def run_effects_def advance_def deps_delaySearch_def
      deps_loadData_def handleSearchChange_def Let_def)

end
